theory Spec2Isabelle
  imports Main
begin

section \<open>Folder Aggregator: a shallow embedding of \<^verbatim>\<open>sharepoint_aggregator.py\<close>\<close>

text \<open>
  The program walks a tree of folders (on the local disk or in a SharePoint document
  library), reads a fixed cell layout out of every Excel questionnaire it finds, and writes
  all questionnaires into one wide table.

  Everything the program does to the outside world is explicit here.  The file system, the
  spreadsheet reader, the SharePoint client and the spreadsheet writer are an environment
  record of functions whose results are either a raised exception or a value; what the
  program prints, opens, closes and writes is a list of events returned next to the result.
\<close>

subsection \<open>Python strings\<close>

text \<open>\<^verbatim>\<open>str(n)\<close> for a non-negative integer, used by the f-strings of the source.\<close>

fun str_nat :: "nat \<Rightarrow> string" where
  "str_nat n =
     (if n < 10 then [''0123456789'' ! n]
      else str_nat (n div 10) @ [''0123456789'' ! (n mod 10)])"

declare str_nat.simps [simp del]

definition startswith :: "string \<Rightarrow> string \<Rightarrow> bool" where
  "startswith s p = (take (length p) s = p)"

definition endswith :: "string \<Rightarrow> string \<Rightarrow> bool" where
  "endswith s p = (length p \<le> length s \<and> drop (length s - length p) s = p)"

text \<open>
  \<^verbatim>\<open>str.lower\<close> on the letters A to Z.  A \<^typ>\<open>char\<close> is a byte; the only characters that
  Python lowers to one of \<^verbatim>\<open>x\<close>, \<^verbatim>\<open>l\<close>, \<^verbatim>\<open>s\<close> are those letters and their capitals, so the
  comparison with \<^verbatim>\<open>.xlsx\<close> and \<^verbatim>\<open>.xls\<close> below is the one the program makes.
\<close>

definition lower_char :: "char \<Rightarrow> char" where
  "lower_char c =
     (case map_of (zip ''ABCDEFGHIJKLMNOPQRSTUVWXYZ'' ''abcdefghijklmnopqrstuvwxyz'') c of
        Some d \<Rightarrow> d
      | None \<Rightarrow> c)"

definition lower :: "string \<Rightarrow> string" where
  "lower s = map lower_char s"

text \<open>\<^verbatim>\<open>str.rfind\<close> of one character; Python's \<^verbatim>\<open>-1\<close> is \<^const>\<open>None\<close>.\<close>

fun rfind :: "string \<Rightarrow> char \<Rightarrow> nat option" where
  "rfind [] c = None"
| "rfind (x # xs) c =
     (case rfind xs c of
        Some i \<Rightarrow> Some (Suc i)
      | None \<Rightarrow> if x = c then Some 0 else None)"

text \<open>
  \<^verbatim>\<open>PurePath.suffix\<close> of a file name: the part from the last dot on, empty when there is
  no dot, when the only dot is the first character, or when the name ends with the dot.
\<close>

definition suffix :: "string \<Rightarrow> string" where
  "suffix name =
     (case rfind name (CHR ''.'') of
        Some i \<Rightarrow> if 0 < i \<and> i < length name - 1 then drop i name else []
      | None \<Rightarrow> [])"

text \<open>\<^verbatim>\<open>os.path.join\<close> of two components on a POSIX system.\<close>

definition os_path_join :: "string \<Rightarrow> string \<Rightarrow> string" where
  "os_path_join a b =
     (if startswith b ''/'' then b
      else if a = [] \<or> endswith a ''/'' then a @ b
      else a @ ''/'' @ b)"

text \<open>\<^verbatim>\<open>dict.get(key, default)\<close>.\<close>

definition dict_get :: "('k \<rightharpoonup> 'a) \<Rightarrow> 'k \<Rightarrow> 'a \<Rightarrow> 'a" where
  "dict_get m k d = (case m k of Some v \<Rightarrow> v | None \<Rightarrow> d)"

subsection \<open>Exceptions, the outside world, events\<close>

text \<open>An exception caught by \<^verbatim>\<open>except Exception as e\<close>; the string is \<^verbatim>\<open>str(e)\<close>.\<close>

datatype exn = Exception string

fun str_exn :: "exn \<Rightarrow> string" where
  "str_exn (Exception msg) = msg"

text \<open>
  A \<^verbatim>\<open>pathlib.Path\<close> as the program uses it: its \<^verbatim>\<open>name\<close>, its \<^verbatim>\<open>str()\<close>, and the answers of
  \<^verbatim>\<open>is_dir()\<close> and \<^verbatim>\<open>is_file()\<close>.
\<close>

record path =
  name :: string
  str_path :: string
  is_dir :: bool
  is_file :: bool

text \<open>A SharePoint folder or file object: its \<^verbatim>\<open>properties\<close> dictionary.\<close>

record sp_item =
  properties :: "string \<rightharpoonup> string"

text \<open>
  A cell value is \<^typ>\<open>'v option\<close>: \<^const>\<open>None\<close> is Python's \<^verbatim>\<open>None\<close> (an empty cell),
  \<^term>\<open>Some v\<close> any text, number, date or boolean.  The active sheet of a workbook is a
  worksheet (subscripting by a coordinate gives a cell), a chart sheet, or \<^verbatim>\<open>None\<close> when the
  workbook has no sheet; subscripting either of the last two raises \<^verbatim>\<open>TypeError\<close>.
\<close>

datatype 'v active_sheet =
    Worksheet "string \<Rightarrow> 'v option"
  | Chartsheet
  | NoSheet

datatype 'v workbook = Workbook (active: "'v active_sheet")

fun cell_value :: "'v active_sheet \<Rightarrow> string \<Rightarrow> exn + 'v option" where
  "cell_value (Worksheet cells) coordinate = Inr (cells coordinate)"
| "cell_value Chartsheet coordinate =
     Inl (Exception '''Chartsheet' object is not subscriptable'')"
| "cell_value NoSheet coordinate =
     Inl (Exception '''NoneType' object is not subscriptable'')"

text \<open>A cell of the written spreadsheet: a column label, a data value, or a row index.\<close>

datatype 'v xl_cell = Label string | Data "'v option" | RowIndex nat

datatype 'v event =
    Print string
  | LoadWorkbook string
  | CloseWorkbook string
  | WriteExcel string "'v xl_cell list list"

text \<open>
  The outside world.  Each function gives what the library call does on its argument:
  \<^item> \<open>iterdir\<close>: the entries of a directory (\<^verbatim>\<open>Path.iterdir\<close>);
  \<^item> \<open>load_workbook\<close>: \<^verbatim>\<open>openpyxl.load_workbook(file_path, data_only=True)\<close>;
  \<^item> \<open>sp_folders\<close>, \<open>sp_files\<close>: the SharePoint listing of a folder's sub-folders and files
    (\<^verbatim>\<open>get_folder_by_server_relative_url\<close>, \<^verbatim>\<open>load\<close>, \<^verbatim>\<open>execute_query\<close>);
  \<^item> \<open>download\<close>: \<^verbatim>\<open>File.open_binary\<close> followed by writing the local file, \<^const>\<open>None\<close> when
    nothing is raised;
  \<^item> \<open>excel_writer\<close>: whether writing the output file raises.
\<close>

record 'v env =
  iterdir :: "string \<Rightarrow> exn + path list"
  load_workbook :: "string \<Rightarrow> exn + 'v workbook"
  sp_folders :: "string \<Rightarrow> exn + sp_item list"
  sp_files :: "string \<Rightarrow> exn + sp_item list"
  download :: "string \<Rightarrow> string \<Rightarrow> exn option"
  excel_writer :: "string \<Rightarrow> exn option"

subsection \<open>\<^verbatim>\<open>LocalFolderProcessor\<close>\<close>

definition get_folders :: "'v env \<Rightarrow> string \<Rightarrow> 'v event list \<times> path list" where
  "get_folders env base_path =
     (case iterdir env base_path of
        Inr fs \<Rightarrow> ([], filter (\<lambda>f. is_dir f \<and> \<not> startswith (name f) ''.'') fs)
      | Inl e \<Rightarrow>
          ([Print (''Error getting folders from '' @ base_path @ '': '' @ str_exn e)], []))"

text \<open>The loop of \<^verbatim>\<open>get_excel_files_in_folder\<close>, with \<open>excel_files\<close> as accumulator.\<close>

fun local_excel_loop :: "path list \<Rightarrow> path list \<Rightarrow> path list" where
  "local_excel_loop [] excel_files = excel_files"
| "local_excel_loop (file # files) excel_files =
     (if is_file file \<and> lower (suffix (name file)) \<in> set [''.xlsx'', ''.xls'']
         \<and> \<not> startswith (name file) ''~$''
      then local_excel_loop files (excel_files @ [file])
      else local_excel_loop files excel_files)"

definition local_get_excel_files_in_folder ::
  "'v env \<Rightarrow> string \<Rightarrow> 'v event list \<times> path list" where
  "local_get_excel_files_in_folder env folder_path =
     (case iterdir env folder_path of
        Inr files \<Rightarrow> ([], local_excel_loop files [])
      | Inl e \<Rightarrow>
          ([Print (''Error getting files from '' @ folder_path @ '': '' @ str_exn e)], []))"

subsection \<open>\<^verbatim>\<open>SharePointConnector\<close>\<close>

definition get_folders_in_path :: "'v env \<Rightarrow> string \<Rightarrow> 'v event list \<times> sp_item list" where
  "get_folders_in_path env folder_path =
     (case sp_folders env folder_path of
        Inr folders \<Rightarrow> ([], folders)
      | Inl e \<Rightarrow>
          ([Print (''Error getting folders from '' @ folder_path @ '': '' @ str_exn e)], []))"

fun sp_excel_loop :: "sp_item list \<Rightarrow> sp_item list \<Rightarrow> sp_item list" where
  "sp_excel_loop [] excel_files = excel_files"
| "sp_excel_loop (file # files) excel_files =
     (let file_name = dict_get (properties file) ''Name'' '''' in
      if (endswith file_name ''.xlsx'' \<or> endswith file_name ''.xls'')
         \<and> \<not> startswith file_name ''~$''
      then sp_excel_loop files (excel_files @ [file])
      else sp_excel_loop files excel_files)"

definition sp_get_excel_files_in_folder ::
  "'v env \<Rightarrow> string \<Rightarrow> 'v event list \<times> sp_item list" where
  "sp_get_excel_files_in_folder env folder_url =
     (case sp_files env folder_url of
        Inr files \<Rightarrow> ([], sp_excel_loop files [])
      | Inl e \<Rightarrow>
          ([Print (''Error getting files from '' @ folder_url @ '': '' @ str_exn e)], []))"

definition download_file :: "'v env \<Rightarrow> string \<Rightarrow> string \<Rightarrow> 'v event list \<times> bool" where
  "download_file env file_url local_path =
     (case download env file_url local_path of
        None \<Rightarrow> ([], True)
      | Some e \<Rightarrow>
          ([Print (''Error downloading file '' @ file_url @ '': '' @ str_exn e)], False))"

subsection \<open>\<^verbatim>\<open>QuestionnaireExtractor\<close>\<close>

text \<open>
  The dictionaries the extractor builds have fixed keys, so they are records: one per
  question row, and one per questionnaire.
\<close>

record 'v qa =
  question :: "'v option"
  answer :: "'v option"
  comment :: "'v option"

record 'v questionnaire =
  source_folder :: string
  application :: "'v option"
  responsible :: "'v option"
  deputy :: "'v option"
  questions_answers :: "'v qa list"

text \<open>
  The loop over \<^verbatim>\<open>range(3, 20)\<close>: three cell reads per row, the first exception ends it;
  \<open>acc\<close> is the list \<^verbatim>\<open>questions_answers\<close> of the source.
\<close>

fun extract_rows ::
  "'v active_sheet \<Rightarrow> nat list \<Rightarrow> 'v qa list \<Rightarrow> exn + 'v qa list" where
  "extract_rows sheet [] acc = Inr acc"
| "extract_rows sheet (row # rows) acc =
     (case cell_value sheet (''B'' @ str_nat row) of
        Inl e \<Rightarrow> Inl e
      | Inr q \<Rightarrow>
     (case cell_value sheet (''C'' @ str_nat row) of
        Inl e \<Rightarrow> Inl e
      | Inr a \<Rightarrow>
     (case cell_value sheet (''D'' @ str_nat row) of
        Inl e \<Rightarrow> Inl e
      | Inr c \<Rightarrow>
          extract_rows sheet rows
            (acc @ [\<lparr>question = q, answer = a, comment = c\<rparr>]))))"

text \<open>
  The body of the \<^verbatim>\<open>try\<close> block: the events up to the point where it is left, and either
  the exception that left it or the dictionary it returns.
\<close>

definition extract_try ::
  "'v env \<Rightarrow> string \<Rightarrow> string \<Rightarrow> 'v event list \<times> (exn + 'v questionnaire)" where
  "extract_try env file_path folder =
     (case load_workbook env file_path of
        Inl e \<Rightarrow> ([], Inl e)
      | Inr workbook \<Rightarrow>
          (let sheet = active workbook in
           case cell_value sheet ''B1'' of
             Inl e \<Rightarrow> ([LoadWorkbook file_path], Inl e)
           | Inr app \<Rightarrow>
          (case cell_value sheet ''C1'' of
             Inl e \<Rightarrow> ([LoadWorkbook file_path], Inl e)
           | Inr resp \<Rightarrow>
          (case cell_value sheet ''D1'' of
             Inl e \<Rightarrow> ([LoadWorkbook file_path], Inl e)
           | Inr dep \<Rightarrow>
          (case extract_rows sheet [3..<20] [] of
             Inl e \<Rightarrow> ([LoadWorkbook file_path], Inl e)
           | Inr qas \<Rightarrow>
               ([LoadWorkbook file_path, CloseWorkbook file_path],
                Inr \<lparr>source_folder = folder, application = app, responsible = resp,
                     deputy = dep, questions_answers = qas\<rparr>))))))"

text \<open>\<^verbatim>\<open>extract_data\<close>: the \<^verbatim>\<open>try\<close> block and its \<^verbatim>\<open>except Exception\<close> handler.\<close>

definition extract_data ::
  "'v env \<Rightarrow> string \<Rightarrow> string \<Rightarrow> 'v event list \<times> 'v questionnaire option" where
  "extract_data env file_path folder =
     (case extract_try env file_path folder of
        (evs, Inr d) \<Rightarrow> (evs, Some d)
      | (evs, Inl e) \<Rightarrow>
          (evs @ [Print (''Error extracting data from '' @ file_path @ '': '' @ str_exn e)],
           None))"

subsection \<open>\<^verbatim>\<open>DataAggregator\<close>\<close>

record 'v aggregator =
  all_data :: "'v questionnaire list"

definition new_aggregator :: "'v aggregator" where
  "new_aggregator = \<lparr>all_data = []\<rparr>"

text \<open>
  \<^verbatim>\<open>if data:\<close> is false for \<^verbatim>\<open>None\<close> and true for every dictionary the extractor returns
  (it has five keys).
\<close>

fun add_questionnaire :: "'v aggregator \<Rightarrow> 'v questionnaire option \<Rightarrow> 'v aggregator" where
  "add_questionnaire agg None = agg"
| "add_questionnaire agg (Some d) = agg\<lparr>all_data := all_data agg @ [d]\<rparr>"

text \<open>
  A row of the table is a Python dictionary whose key order matters, so it is an
  association list; \<open>setitem\<close> is \<^verbatim>\<open>row[k] = v\<close>: it overwrites the value of a key that is
  there and appends a key that is not.
\<close>

fun setitem :: "('k \<times> 'a) list \<Rightarrow> 'k \<Rightarrow> 'a \<Rightarrow> ('k \<times> 'a) list" where
  "setitem [] k v = [(k, v)]"
| "setitem ((k', v') # kvs) k v =
     (if k' = k then (k, v) # kvs else (k', v') # setitem kvs k v)"

definition build_row :: "'v questionnaire \<Rightarrow> (string \<times> 'v option) list" where
  "build_row d =
     (let row0 = [(''Application'', application d),
                  (''Answered'', responsible d),
                  (''App Responsible'', responsible d),
                  (''Deputy'', deputy d)];
          row1 = foldl (\<lambda>row (i, qa). setitem row (''Q'' @ str_nat i) (answer qa))
                   row0 (enumerate 1 (questions_answers d));
          row2 = foldl (\<lambda>row (i, qa). setitem row (''COMM Q'' @ str_nat i) (comment qa))
                   row1 (enumerate 1 (questions_answers d))
      in row2)"

text \<open>
  \<^verbatim>\<open>pandas.DataFrame(rows)\<close> for a list of dictionaries: the columns are the keys in the
  order in which they are first seen, row after row; a row without a key has an empty cell
  in that column.  \<^verbatim>\<open>None\<close> and the missing value are both written as an empty cell.
\<close>

record 'v dataframe =
  columns :: "string list"
  df_values :: "'v option list list"

definition unique_keys :: "(string \<times> 'a) list list \<Rightarrow> string list" where
  "unique_keys rows =
     foldl (\<lambda>cols row. foldl (\<lambda>cs k. if k \<in> set cs then cs else cs @ [k]) cols (map fst row))
       [] rows"

definition DataFrame :: "(string \<times> 'v option) list list \<Rightarrow> 'v dataframe" where
  "DataFrame rows =
     (let cols = unique_keys rows in
      \<lparr>columns = cols,
       df_values = map (\<lambda>row. map (\<lambda>c. case map_of row c of Some v \<Rightarrow> v | None \<Rightarrow> None) cols)
                 rows\<rparr>)"

text \<open>
  The sheet \<^verbatim>\<open>DataFrame.to_excel\<close> writes: the header row, then one row per data row; with
  \<^verbatim>\<open>index=True\<close> every row starts with its position, under an unlabelled column.
\<close>

definition to_excel :: "'v dataframe \<Rightarrow> bool \<Rightarrow> 'v xl_cell list list" where
  "to_excel df index =
     (if index
      then (Data None # map Label (columns df))
           # map (\<lambda>(i, r). RowIndex i # map Data r) (enumerate 0 (df_values df))
      else map Label (columns df) # map (map Data) (df_values df))"

text \<open>
  \<^verbatim>\<open>export_to_excel\<close>: the events, and the exception that leaves the method when the writer
  raises (nothing in the method catches it).
\<close>

definition export_to_excel ::
  "'v env \<Rightarrow> 'v aggregator \<Rightarrow> string \<Rightarrow> 'v event list \<times> exn option" where
  "export_to_excel env agg output_file =
     (if all_data agg = [] then ([Print ''No data to export''], None)
      else
        (let rows = map build_row (all_data agg);
             df = DataFrame rows
         in case excel_writer env output_file of
              Some e \<Rightarrow> ([], Some e)
            | None \<Rightarrow>
                ([WriteExcel output_file (to_excel df False),
                  Print (''Aggregated data exported to: '' @ output_file)], None)))"

subsection \<open>\<^verbatim>\<open>main\<close>\<close>

text \<open>
  What a run changes: the lines printed and the other effects, in order (the trace), and
  the aggregator.  \<^verbatim>\<open>main\<close> has no other variable that outlives one loop iteration.
\<close>

record 'v run =
  trace :: "'v event list"
  aggregator :: "'v aggregator"

definition emit :: "'v run \<Rightarrow> 'v event list \<Rightarrow> 'v run" where
  "emit st evs = st\<lparr>trace := trace st @ evs\<rparr>"

text \<open>The body of \<^verbatim>\<open>for excel_file in excel_files\<close> in local mode.\<close>

definition local_process_file :: "'v env \<Rightarrow> string \<Rightarrow> 'v run \<Rightarrow> path \<Rightarrow> 'v run" where
  "local_process_file env folder_name st excel_file =
     (let file_name = name excel_file;
          st1 = emit st [Print (''    Processing: '' @ file_name)];
          (evs, data) = extract_data env (str_path excel_file) folder_name;
          st2 = emit st1 evs
      in case data of
           Some d \<Rightarrow>
             emit (st2\<lparr>aggregator := add_questionnaire (aggregator st2) data\<rparr>)
               [Print (''      Extracted data from '' @ file_name)]
         | None \<Rightarrow> emit st2 [Print (''      Failed to extract data from '' @ file_name)])"

text \<open>The body of \<^verbatim>\<open>for folder in folders\<close> in local mode.\<close>

definition local_process_folder :: "'v env \<Rightarrow> 'v run \<Rightarrow> path \<Rightarrow> 'v run" where
  "local_process_folder env st folder =
     (let folder_name = name folder;
          st1 = emit st [Print (''\<newline>Processing folder: '' @ folder_name)];
          (evs, excel_files) = local_get_excel_files_in_folder env (str_path folder);
          st2 = emit st1
                  (evs @ [Print (''  Found '' @ str_nat (length excel_files) @ '' Excel file(s)'')])
      in foldl (local_process_file env folder_name) st2 excel_files)"

text \<open>
  The end of both modes: the separator line, the export, the summary.  An exception of the
  export leaves \<^verbatim>\<open>main\<close>, so the summary is not printed then.
\<close>

definition finish :: "'v env \<Rightarrow> 'v run \<Rightarrow> string \<Rightarrow> 'v run \<times> exn option" where
  "finish env st output_file =
     (let st1 = emit st [Print (''\<newline>'' @ replicate 50 (CHR ''=''))];
          (evs, raised) = export_to_excel env (aggregator st1) output_file;
          st2 = emit st1 evs
      in case raised of
           Some e \<Rightarrow> (st2, Some e)
         | None \<Rightarrow>
             (emit st2
                [Print (''\<newline>Processing complete! Total questionnaires processed: ''
                        @ str_nat (length (all_data (aggregator st2))))],
              None))"

text \<open>
  Local mode, from \<^verbatim>\<open>print(f"Scanning folders in: {base_path}")\<close> to the end of the branch;
  \<open>base_path\<close> is the resolved base path.
\<close>

definition main_local :: "'v env \<Rightarrow> string \<Rightarrow> string \<Rightarrow> 'v run \<times> exn option" where
  "main_local env base_path output_file =
     (let st0 = \<lparr>trace = [Print (''Scanning folders in: '' @ base_path)],
                 aggregator = new_aggregator\<rparr>;
          (evs, folders) = get_folders env base_path;
          st1 = emit st0 (evs @ [Print (''Found '' @ str_nat (length folders) @ '' folders'')]);
          st2 = foldl (local_process_folder env) st1 folders
      in finish env st2 output_file)"

text \<open>The body of \<^verbatim>\<open>for excel_file in excel_files\<close> in SharePoint mode.\<close>

definition sp_process_file ::
  "'v env \<Rightarrow> string \<Rightarrow> string \<Rightarrow> 'v run \<Rightarrow> sp_item \<Rightarrow> 'v run" where
  "sp_process_file env temp_dir folder_name st excel_file =
     (let file_name = dict_get (properties excel_file) ''Name'' '''';
          file_url = dict_get (properties excel_file) ''ServerRelativeUrl'' '''';
          st1 = emit st [Print (''    Processing: '' @ file_name)];
          local_path = os_path_join temp_dir file_name;
          (evs, ok) = download_file env file_url local_path;
          st2 = emit st1 evs
      in if ok then
           (let (evs, data) = extract_data env local_path folder_name;
                st3 = emit st2 evs
            in case data of
                 Some d \<Rightarrow>
                   emit (st3\<lparr>aggregator := add_questionnaire (aggregator st3) data\<rparr>)
                     [Print (''      Extracted data from '' @ file_name)]
               | None \<Rightarrow>
                   emit st3 [Print (''      Failed to extract data from '' @ file_name)])
         else emit st2 [Print (''      Failed to download '' @ file_name)])"

definition sp_process_folder :: "'v env \<Rightarrow> string \<Rightarrow> 'v run \<Rightarrow> sp_item \<Rightarrow> 'v run" where
  "sp_process_folder env temp_dir st folder =
     (let folder_name = dict_get (properties folder) ''Name'' '''';
          folder_url = dict_get (properties folder) ''ServerRelativeUrl'' '''';
          st1 = emit st [Print (''\<newline>Processing folder: '' @ folder_name)];
          (evs, excel_files) = sp_get_excel_files_in_folder env folder_url;
          st2 = emit st1
                  (evs @ [Print (''  Found '' @ str_nat (length excel_files) @ '' Excel file(s)'')])
      in foldl (sp_process_file env temp_dir folder_name) st2 excel_files)"

text \<open>
  SharePoint mode once the connection is made, from \<^verbatim>\<open>aggregator = DataAggregator()\<close> to
  the end of the branch; \<open>temp_dir\<close> is the temporary directory of the run.
\<close>

definition main_sharepoint ::
  "'v env \<Rightarrow> string \<Rightarrow> string \<Rightarrow> string \<Rightarrow> 'v run \<times> exn option" where
  "main_sharepoint env temp_dir folder_path output_file =
     (let st0 = \<lparr>trace = [Print (''\<newline>Scanning folder: '' @ folder_path)],
                 aggregator = new_aggregator\<rparr>;
          (evs, folders) = get_folders_in_path env folder_path;
          st1 = emit st0 (evs @ [Print (''Found '' @ str_nat (length folders) @ '' folders'')]);
          st2 = foldl (sp_process_folder env temp_dir) st1 folders
      in finish env st2 output_file)"

text \<open>
  The dictionary that one pass of the loop over the question rows appends when the sheet is a
  worksheet, where none of the three reads raises.
\<close>

definition qa_of_row :: "(string \<Rightarrow> 'v option) \<Rightarrow> nat \<Rightarrow> 'v qa" where
  "qa_of_row ws row =
     \<lparr>question = ws (''B'' @ str_nat row), answer = ws (''C'' @ str_nat row),
      comment = ws (''D'' @ str_nat row)\<rparr>"

subsection \<open>The workbook resource\<close>


text \<open>
  The archives that are open, event after event: a load in read-only mode leaves the archive
  of its file open, a call of \<^verbatim>\<open>close\<close> closes it, nothing else touches it.
\<close>

fun archive_step :: "bool \<Rightarrow> string list \<Rightarrow> 'v event \<Rightarrow> string list" where
  "archive_step read_only opened (LoadWorkbook file_path) =
     (if read_only then opened @ [file_path] else opened)"
| "archive_step read_only opened (CloseWorkbook file_path) = removeAll file_path opened"
| "archive_step read_only opened (Print line) = opened"
| "archive_step read_only opened (WriteExcel file_path sheet) = opened"

definition open_archives :: "bool \<Rightarrow> 'v event list \<Rightarrow> string list" where
  "open_archives read_only evs = foldl (archive_step read_only) [] evs"

subsection \<open>The header of the output contract\<close>

text \<open>
  The header row as the specification's spreadsheet output contract lists it; the theorems
  below compare it with the columns the program computes.
\<close>

definition spec_header :: "string list" where
  "spec_header =
     [''Application'', ''Answered'', ''App Responsible'', ''Deputy'',
      ''Q1'', ''Q2'', ''Q3'', ''Q4'', ''Q5'', ''Q6'', ''Q7'', ''Q8'', ''Q9'', ''Q10'',
      ''Q11'', ''Q12'', ''Q13'', ''Q14'', ''Q15'', ''Q16'', ''Q17'',
      ''COMM Q1'', ''COMM Q2'', ''COMM Q3'', ''COMM Q4'', ''COMM Q5'', ''COMM Q6'',
      ''COMM Q7'', ''COMM Q8'', ''COMM Q9'', ''COMM Q10'', ''COMM Q11'', ''COMM Q12'',
      ''COMM Q13'', ''COMM Q14'', ''COMM Q15'', ''COMM Q16'', ''COMM Q17'']"

subsection \<open>Concrete worlds\<close>

text \<open>A world in which nothing exists: every read fails, writing the output succeeds.\<close>

definition empty_world :: "string env" where
  "empty_world =
     \<lparr>iterdir = (\<lambda>p. Inl (Exception ''[Errno 2] No such file or directory'')),
      load_workbook = (\<lambda>p. Inl (Exception ''[Errno 2] No such file or directory'')),
      sp_folders = (\<lambda>p. Inl (Exception ''404 Client Error: Not Found'')),
      sp_files = (\<lambda>p. Inl (Exception ''404 Client Error: Not Found'')),
      download = (\<lambda>u p. Some (Exception ''404 Client Error: Not Found'')),
      excel_writer = (\<lambda>p. None)\<rparr>"

text \<open>
  The scenario of the specification: under \<^verbatim>\<open>/data\<close>, folder \<^verbatim>\<open>Unit-A\<close> holds \<^verbatim>\<open>r1.xlsx\<close> and
  folder \<^verbatim>\<open>Unit-B\<close> is empty; the sheet has B1, C1, D1, C3 and D3 filled in.
\<close>

definition r1_sheet :: "string \<Rightarrow> string option" where
  "r1_sheet =
     (\<lambda>c. None)(''B1'' := Some ''App1'', ''C1'' := Some ''Alice'', ''D1'' := Some ''Bob'',
               ''C3'' := Some ''Yes'', ''D3'' := Some ''ok'')"

definition scenario_world :: "string env" where
  "scenario_world =
     empty_world
       \<lparr>iterdir := (\<lambda>p.
          if p = ''/data'' then
            Inr [\<lparr>name = ''Unit-A'', str_path = ''/data/Unit-A'', is_dir = True, is_file = False\<rparr>,
                 \<lparr>name = ''Unit-B'', str_path = ''/data/Unit-B'', is_dir = True, is_file = False\<rparr>]
          else if p = ''/data/Unit-A'' then
            Inr [\<lparr>name = ''r1.xlsx'', str_path = ''/data/Unit-A/r1.xlsx'',
                  is_dir = False, is_file = True\<rparr>]
          else if p = ''/data/Unit-B'' then Inr []
          else iterdir empty_world p),
        load_workbook := (\<lambda>p.
          if p = ''/data/Unit-A/r1.xlsx'' then Inr (Workbook (Worksheet r1_sheet))
          else load_workbook empty_world p)\<rparr>"

definition r1_record :: "string questionnaire" where
  "r1_record =
     \<lparr>source_folder = ''Unit-A'', application = Some ''App1'', responsible = Some ''Alice'',
      deputy = Some ''Bob'',
      questions_answers =
        \<lparr>question = None, answer = Some ''Yes'', comment = Some ''ok''\<rparr>
        # replicate 16 \<lparr>question = None, answer = None, comment = None\<rparr>\<rparr>"

text \<open>The same sheet with a question text in B3.\<close>

definition asked_sheet :: "string \<Rightarrow> string option" where
  "asked_sheet = r1_sheet(''B3'' := Some ''Is the data backed up?'')"

definition asked_world :: "string env" where
  "asked_world =
     empty_world\<lparr>load_workbook :=
       (\<lambda>p. if p = ''/data/Unit-A/r2.xlsx'' then Inr (Workbook (Worksheet asked_sheet))
            else load_workbook empty_world p)\<rparr>"

text \<open>A workbook that loads and whose active sheet is a chart sheet.\<close>

definition chart_world :: "string env" where
  "chart_world =
     empty_world\<lparr>load_workbook :=
       (\<lambda>p. if p = ''/data/Unit-A/chart.xlsx'' then Inr (Workbook Chartsheet)
            else load_workbook empty_world p)\<rparr>"

text \<open>A folder with one file that is not a spreadsheet at all, though its name says so.\<close>

definition corrupt_world :: "string env" where
  "corrupt_world =
     empty_world
       \<lparr>iterdir := (\<lambda>p.
          if p = ''/data'' then
            Inr [\<lparr>name = ''Unit-A'', str_path = ''/data/Unit-A'', is_dir = True, is_file = False\<rparr>]
          else if p = ''/data/Unit-A'' then
            Inr [\<lparr>name = ''bad.xlsx'', str_path = ''/data/Unit-A/bad.xlsx'',
                  is_dir = False, is_file = True\<rparr>]
          else iterdir empty_world p),
        load_workbook := (\<lambda>p.
          if p = ''/data/Unit-A/bad.xlsx'' then Inl (Exception ''File is not a zip file'')
          else load_workbook empty_world p)\<rparr>"

text \<open>
  A file whose name ends in capitals, once in a local folder and once in a SharePoint folder.
\<close>

definition upper_world :: "string env" where
  "upper_world =
     empty_world
       \<lparr>iterdir := (\<lambda>p.
          if p = ''/data/Unit-A'' then
            Inr [\<lparr>name = ''REPORT.XLSX'', str_path = ''/data/Unit-A/REPORT.XLSX'',
                  is_dir = False, is_file = True\<rparr>]
          else iterdir empty_world p),
        sp_files := (\<lambda>p.
          if p = ''/sites/q/Unit-A'' then Inr [\<lparr>properties = [''Name'' \<mapsto> ''REPORT.XLSX'']\<rparr>]
          else sp_files empty_world p)\<rparr>"

text \<open>
  The same file in a SharePoint folder: the download to the temporary directory succeeds,
  and what arrives there is not a spreadsheet either.
\<close>

definition sp_corrupt_world :: "string env" where
  "sp_corrupt_world =
     corrupt_world
       \<lparr>download := (\<lambda>u p.
          if u = ''/sites/q/Unit-A/bad.xlsx'' \<and> p = ''/tmp/run/bad.xlsx'' then None
          else download corrupt_world u p),
        load_workbook := (\<lambda>p.
          if p = ''/tmp/run/bad.xlsx'' then Inl (Exception ''File is not a zip file'')
          else load_workbook corrupt_world p)\<rparr>"

section \<open>Properties\<close>

subsection \<open>Decimal strings\<close>

lemma str_nat_small: "n < 10 \<Longrightarrow> str_nat n = [''0123456789'' ! n]"
  by (subst str_nat.simps) simp

lemma str_nat_big:
  "\<not> n < 10 \<Longrightarrow> str_nat n = str_nat (n div 10) @ [''0123456789'' ! (n mod 10)]"
  by (subst str_nat.simps) simp

lemma str_nat_nonempty: "str_nat n \<noteq> []"
  by (subst str_nat.simps) simp

lemma str_nat_small_values:
  "str_nat 0 = ''0''" "str_nat (Suc 0) = ''1''" "str_nat (Suc (Suc 0)) = ''2''"
  "str_nat 1 = ''1''" "str_nat 2 = ''2''"
  by (simp_all add: str_nat_small)

lemma digit_inj:
  assumes "a < 10" "b < 10" "''0123456789'' ! a = ''0123456789'' ! b"
  shows "a = b"
proof -
  have "distinct ''0123456789''" by simp
  moreover have "a < length ''0123456789''" "b < length ''0123456789''"
    using assms by simp_all
  ultimately show ?thesis using assms(3) nth_eq_iff_index_eq by blast
qed

text \<open>Two numbers with the same decimal string are equal, so no two labels \<open>Qi\<close> collide.\<close>

lemma str_nat_inj: "str_nat n = str_nat m \<Longrightarrow> n = m"
proof (induction n arbitrary: m rule: str_nat.induct)
  case (1 n)
  show ?case
  proof (cases "n < 10")
    case n: True
    show ?thesis
    proof (cases "m < 10")
      case True
      with n "1.prems" show ?thesis by (auto simp: str_nat_small intro: digit_inj)
    next
      case False
      with n "1.prems" str_nat_nonempty [of "m div 10"] show ?thesis
        by (simp add: str_nat_small str_nat_big)
    qed
  next
    case n: False
    show ?thesis
    proof (cases "m < 10")
      case True
      with n "1.prems" str_nat_nonempty [of "n div 10"] show ?thesis
        by (simp add: str_nat_small str_nat_big)
    next
      case False
      with n "1.prems" have eq: "str_nat (n div 10) = str_nat (m div 10)"
        "''0123456789'' ! (n mod 10) = ''0123456789'' ! (m mod 10)"
        by (simp_all add: str_nat_big)
      from "1.IH" [OF n eq(1)] have "n div 10 = m div 10" .
      moreover from eq(2) have "n mod 10 = m mod 10" by (intro digit_inj) simp_all
      ultimately show ?thesis by (metis div_mult_mod_eq)
    qed
  qed
qed

lemma replicate16: "replicate 16 x = [x, x, x, x, x, x, x, x, x, x, x, x, x, x, x, x]"
  by (simp add: numeral_eq_Suc)

subsection \<open>The run state\<close>

lemma trace_emit [simp]: "trace (emit st evs) = trace st @ evs"
  by (simp add: emit_def)

lemma aggregator_emit [simp]: "aggregator (emit st evs) = aggregator st"
  by (simp add: emit_def)

subsection \<open>Listing files\<close>

lemma local_excel_loop_filter:
  "local_excel_loop files acc =
     acc @ filter (\<lambda>file. is_file file \<and> lower (suffix (name file)) \<in> {''.xlsx'', ''.xls''}
                        \<and> \<not> startswith (name file) ''~$'') files"
  by (induction files arbitrary: acc) simp_all

lemma sp_excel_loop_filter:
  "sp_excel_loop files acc =
     acc @ filter (\<lambda>file. (endswith (dict_get (properties file) ''Name'' '''') ''.xlsx''
                          \<or> endswith (dict_get (properties file) ''Name'' '''') ''.xls'')
                        \<and> \<not> startswith (dict_get (properties file) ''Name'' '''') ''~$'') files"
  by (induction files arbitrary: acc) (simp_all add: Let_def)

subsection \<open>Extraction\<close>

lemma extract_rows_Worksheet:
  "extract_rows (Worksheet ws) rows acc = Inr (acc @ map (qa_of_row ws) rows)"
  by (induction rows arbitrary: acc) (simp_all add: qa_of_row_def)

lemma extract_try_Worksheet:
  assumes "load_workbook env file_path = Inr (Workbook (Worksheet ws))"
  shows "extract_try env file_path folder =
     ([LoadWorkbook file_path, CloseWorkbook file_path],
      Inr \<lparr>source_folder = folder, application = ws ''B1'', responsible = ws ''C1'',
           deputy = ws ''D1'', questions_answers = map (qa_of_row ws) [3..<20]\<rparr>)"
  using assms by (simp add: extract_try_def extract_rows_Worksheet del: upt_rec_numeral)

lemma extract_try_load_fails:
  assumes "load_workbook env file_path = Inl e"
  shows "extract_try env file_path folder = ([], Inl e)"
  using assms by (simp add: extract_try_def)

lemma extract_try_Chartsheet:
  assumes "load_workbook env file_path = Inr (Workbook Chartsheet)"
  shows "extract_try env file_path folder =
     ([LoadWorkbook file_path], Inl (Exception '''Chartsheet' object is not subscriptable''))"
  using assms by (simp add: extract_try_def)

lemma extract_try_NoSheet:
  assumes "load_workbook env file_path = Inr (Workbook NoSheet)"
  shows "extract_try env file_path folder =
     ([LoadWorkbook file_path], Inl (Exception '''NoneType' object is not subscriptable''))"
  using assms by (simp add: extract_try_def)

lemma load_workbook_cases:
  obtains (load_fails) e where "load_workbook env file_path = Inl e"
  | (worksheet) ws where "load_workbook env file_path = Inr (Workbook (Worksheet ws))"
  | (chartsheet) "load_workbook env file_path = Inr (Workbook Chartsheet)"
  | (nosheet) "load_workbook env file_path = Inr (Workbook NoSheet)"
proof (cases "load_workbook env file_path")
  case (Inl e)
  then show ?thesis using load_fails by blast
next
  case (Inr wb)
  then show ?thesis
    by (cases wb; cases "active wb") (use worksheet chartsheet nosheet in auto)
qed

text \<open>On a worksheet the extraction always returns a record, and closes the workbook.\<close>

lemma extract_data_Worksheet:
  assumes "load_workbook env file_path = Inr (Workbook (Worksheet ws))"
  shows "extract_data env file_path folder =
     ([LoadWorkbook file_path, CloseWorkbook file_path],
      Some \<lparr>source_folder = folder, application = ws ''B1'', responsible = ws ''C1'',
           deputy = ws ''D1'', questions_answers = map (qa_of_row ws) [3..<20]\<rparr>)"
  using assms by (simp add: extract_data_def extract_try_Worksheet del: upt_rec_numeral)

lemma extract_data_load_fails:
  assumes "load_workbook env file_path = Inl e"
  shows "extract_data env file_path folder =
     ([Print (''Error extracting data from '' @ file_path @ '': '' @ str_exn e)], None)"
  using assms by (simp add: extract_data_def extract_try_load_fails)

lemma extract_data_read_fails:
  assumes "load_workbook env file_path = Inr wb" "cell_value (active wb) ''B1'' = Inl e"
  shows "extract_data env file_path folder =
     ([LoadWorkbook file_path,
       Print (''Error extracting data from '' @ file_path @ '': '' @ str_exn e)], None)"
  using assms by (simp add: extract_data_def extract_try_def)

text \<open>A record comes back only from a worksheet, and then it is the one above.\<close>

lemma extract_data_Some:
  assumes "extract_data env file_path folder = (evs, Some d)"
  obtains ws where "load_workbook env file_path = Inr (Workbook (Worksheet ws))"
    and "evs = [LoadWorkbook file_path, CloseWorkbook file_path]"
    and "d = \<lparr>source_folder = folder, application = ws ''B1'', responsible = ws ''C1'',
           deputy = ws ''D1'', questions_answers = map (qa_of_row ws) [3..<20]\<rparr>"
proof (cases rule: load_workbook_cases [of env file_path])
  case (load_fails e)
  with assms show ?thesis by (simp add: extract_data_load_fails)
next
  case (worksheet ws)
  with assms that show ?thesis by (simp add: extract_data_Worksheet del: upt_rec_numeral)
next
  case chartsheet
  with assms show ?thesis by (simp add: extract_data_def extract_try_Chartsheet)
next
  case nosheet
  with assms show ?thesis by (simp add: extract_data_def extract_try_NoSheet)
qed

lemma r1_extract:
  "extract_data scenario_world ''/data/Unit-A/r1.xlsx'' ''Unit-A'' =
     ([LoadWorkbook ''/data/Unit-A/r1.xlsx'', CloseWorkbook ''/data/Unit-A/r1.xlsx''],
      Some r1_record)"
proof -
  have "load_workbook scenario_world ''/data/Unit-A/r1.xlsx'' =
      Inr (Workbook (Worksheet r1_sheet))"
    by (simp add: scenario_world_def)
  from extract_data_Worksheet [OF this] show ?thesis
    by (simp add: r1_record_def r1_sheet_def qa_of_row_def str_nat.simps upt_conv_Cons
        replicate16)
qed

subsection \<open>Rows and tables\<close>

lemma setitem_fresh: "k \<notin> fst ` set row \<Longrightarrow> setitem row k v = row @ [(k, v)]"
  by (induction row) auto

lemma foldl_setitem_fresh:
  assumes "distinct (map kf xs)" "set (map kf xs) \<inter> fst ` set row = {}"
  shows "foldl (\<lambda>row x. setitem row (kf x) (vf x)) row xs = row @ map (\<lambda>x. (kf x, vf x)) xs"
  using assms
proof (induction xs arbitrary: row)
  case Nil
  then show ?case by simp
next
  case (Cons x xs)
  from Cons.prems have fresh: "kf x \<notin> fst ` set row" by auto
  from Cons.prems have "set (map kf xs) \<inter> fst ` set (row @ [(kf x, vf x)]) = {}" by auto
  with Cons.IH [of "row @ [(kf x, vf x)]"] Cons.prems fresh show ?case
    by (simp add: setitem_fresh)
qed

lemma map_key_enumerate:
  "map (\<lambda>(i, x). f i) (enumerate n xs) = map f [n..<n + length xs]"
proof -
  have "map (\<lambda>(i, x). f i) ys = map f (map fst ys)" for ys :: "(nat \<times> 'b) list"
    by (induction ys) auto
  then show ?thesis by (simp only: map_fst_enumerate)
qed

lemma map_val_enumerate: "map (\<lambda>(i, x). g x) (enumerate n xs) = map g xs"
proof -
  have "map (\<lambda>(i, x). g x) ys = map g (map snd ys)" for ys :: "(nat \<times> 'b) list"
    by (induction ys) auto
  then show ?thesis by (simp only: map_snd_enumerate)
qed

lemma map_kv_enumerate_fst:
  "map fst (map (\<lambda>(i, x). (f i, g x)) (enumerate n xs)) = map f [n..<n + length xs]"
  using map_key_enumerate [of f n xs] by (simp add: case_prod_unfold comp_def)

lemma map_kv_enumerate_snd:
  "map snd (map (\<lambda>(i, x). (f i, g x)) (enumerate n xs)) = map g xs"
  using map_val_enumerate [of g n xs] by (simp add: case_prod_unfold comp_def)

text \<open>
  None of the two loops of \<^verbatim>\<open>export_to_excel\<close> ever overwrites a key: the row is the four
  metadata entries, then the answers, then the comments.
\<close>

lemma build_row_eq:
  "build_row d =
     [(''Application'', application d), (''Answered'', responsible d),
      (''App Responsible'', responsible d), (''Deputy'', deputy d)]
     @ map (\<lambda>(i, qa). (''Q'' @ str_nat i, answer qa)) (enumerate 1 (questions_answers d))
     @ map (\<lambda>(i, qa). (''COMM Q'' @ str_nat i, comment qa)) (enumerate 1 (questions_answers d))"
proof -
  let ?qas = "enumerate 1 (questions_answers d)"
  let ?row0 = "[(''Application'', application d), (''Answered'', responsible d),
      (''App Responsible'', responsible d), (''Deputy'', deputy d)]"
  let ?kq = "\<lambda>(i :: nat, qa :: 'a qa). ''Q'' @ str_nat i"
  let ?kc = "\<lambda>(i :: nat, qa :: 'a qa). ''COMM Q'' @ str_nat i"
  have dq: "distinct (map ?kq ?qas)"
    unfolding map_key_enumerate by (auto simp: distinct_map inj_on_def dest: str_nat_inj)
  have dc: "distinct (map ?kc ?qas)"
    unfolding map_key_enumerate by (auto simp: distinct_map inj_on_def dest: str_nat_inj)
  have fq: "set (map ?kq ?qas) \<inter> fst ` set ?row0 = {}" by auto
  have row1: "foldl (\<lambda>row (i, qa). setitem row (''Q'' @ str_nat i) (answer qa)) ?row0 ?qas
      = ?row0 @ map (\<lambda>(i, qa). (''Q'' @ str_nat i, answer qa)) ?qas"
    using foldl_setitem_fresh [of ?kq ?qas ?row0 "\<lambda>(i, qa). answer qa", OF dq fq]
    by (simp add: case_prod_unfold)
  let ?row1 = "?row0 @ map (\<lambda>(i, qa). (''Q'' @ str_nat i, answer qa)) ?qas"
  have fc: "set (map ?kc ?qas) \<inter> fst ` set ?row1 = {}" by auto
  have row2: "foldl (\<lambda>row (i, qa). setitem row (''COMM Q'' @ str_nat i) (comment qa)) ?row1 ?qas
      = ?row1 @ map (\<lambda>(i, qa). (''COMM Q'' @ str_nat i, comment qa)) ?qas"
    using foldl_setitem_fresh [of ?kc ?qas ?row1 "\<lambda>(i, qa). comment qa", OF dc fc]
    by (simp add: case_prod_unfold)
  show ?thesis
    unfolding build_row_def Let_def row1 row2 by simp
qed

lemma keys_build_row:
  "map fst (build_row d) =
     [''Application'', ''Answered'', ''App Responsible'', ''Deputy'']
     @ map (\<lambda>i. ''Q'' @ str_nat i) [1..<1 + length (questions_answers d)]
     @ map (\<lambda>i. ''COMM Q'' @ str_nat i) [1..<1 + length (questions_answers d)]"
  unfolding build_row_eq map_append map_kv_enumerate_fst by simp

lemma values_build_row:
  "map snd (build_row d) =
     [application d, responsible d, responsible d, deputy d]
     @ map answer (questions_answers d) @ map comment (questions_answers d)"
  unfolding build_row_eq map_append map_kv_enumerate_snd by simp

lemma distinct_keys_build_row: "distinct (map fst (build_row d))"
  unfolding keys_build_row
  by (auto simp: distinct_map inj_on_def dest: str_nat_inj)

text \<open>With seventeen question rows the keys are the header of the output contract.\<close>

lemma keys_17:
  "[''Application'', ''Answered'', ''App Responsible'', ''Deputy'']
     @ map (\<lambda>i. ''Q'' @ str_nat i) [1..<1 + 17]
     @ map (\<lambda>i. ''COMM Q'' @ str_nat i) [1..<1 + 17] = spec_header"
  by (simp add: spec_header_def upt_conv_Cons str_nat.simps)

lemma fold_new_keys:
  assumes "distinct ks" "set ks \<inter> set cols = {}"
  shows "foldl (\<lambda>cs k. if k \<in> set cs then cs else cs @ [k]) cols ks = cols @ ks"
  using assms by (induction ks arbitrary: cols) auto

lemma fold_seen_keys:
  assumes "set ks \<subseteq> set cols"
  shows "foldl (\<lambda>cs k. if k \<in> set cs then cs else cs @ [k]) cols ks = cols"
  using assms by (induction ks arbitrary: cols) auto

lemma unique_keys_same:
  assumes "rows \<noteq> []" "\<forall>row\<in>set rows. map fst row = ks" "distinct ks"
  shows "unique_keys rows = ks"
proof -
  let ?inner = "\<lambda>cols (row :: (string \<times> 'a) list).
     foldl (\<lambda>cs k. if k \<in> set cs then cs else cs @ [k]) cols (map fst row)"
  have rest: "foldl ?inner ks rs = ks" if "\<forall>row\<in>set rs. map fst row = ks" for rs
    using that by (induction rs) (simp_all add: fold_seen_keys)
  from assms(1) obtain r rs where rows: "rows = r # rs" by (cases rows) auto
  with assms(2) have r: "map fst r = ks" and rs: "\<forall>row\<in>set rs. map fst row = ks" by auto
  have "?inner [] r = ks" using fold_new_keys [of ks "[]"] assms(3) r by simp
  then show ?thesis using rest [OF rs] by (simp add: unique_keys_def rows)
qed

lemma lookup_own_keys:
  assumes "distinct (map fst row)"
  shows "map (\<lambda>c. case map_of row c of Some v \<Rightarrow> v | None \<Rightarrow> None) (map fst row) = map snd row"
  using assms
proof (induction row)
  case Nil
  then show ?case by simp
next
  case (Cons kv row)
  obtain k v where kv: "kv = (k, v)" by (cases kv)
  from Cons.prems kv have k: "k \<notin> fst ` set row" and d: "distinct (map fst row)" by auto
  have "map (\<lambda>c. case map_of (kv # row) c of Some v \<Rightarrow> v | None \<Rightarrow> None) (map fst row)
      = map (\<lambda>c. case map_of row c of Some v \<Rightarrow> v | None \<Rightarrow> None) (map fst row)"
    using k kv by (intro map_cong) auto
  with Cons.IH [OF d] kv show ?case by simp
qed

lemma DataFrame_same_keys:
  assumes "rows \<noteq> []" "\<forall>row\<in>set rows. map fst row = ks" "distinct ks"
  shows "DataFrame rows = \<lparr>columns = ks, df_values = map (map snd) rows\<rparr>"
proof -
  have "map (\<lambda>c. case map_of row c of Some v \<Rightarrow> v | None \<Rightarrow> None) ks = map snd row"
    if "row \<in> set rows" for row
    using that assms(2,3) lookup_own_keys [of row] by auto
  then show ?thesis
    by (simp add: DataFrame_def Let_def unique_keys_same [OF assms])
qed

text \<open>The sheet written for a report whose records all have seventeen question rows.\<close>

lemma export_table:
  assumes "all_data agg \<noteq> []"
      and "\<forall>d\<in>set (all_data agg). length (questions_answers d) = 17"
      and "excel_writer env output_file = None"
  shows "export_to_excel env agg output_file =
     ([WriteExcel output_file
         (map Label spec_header
          # map (\<lambda>d. map Data ([application d, responsible d, responsible d, deputy d]
                                @ map answer (questions_answers d)
                                @ map comment (questions_answers d)))
              (all_data agg)),
       Print (''Aggregated data exported to: '' @ output_file)], None)"
proof -
  let ?rows = "map build_row (all_data agg)"
  have ne: "?rows \<noteq> []" using assms(1) by simp
  have keys: "\<forall>row\<in>set ?rows. map fst row = spec_header"
    using assms(2) keys_17 by (auto simp: keys_build_row)
  have dist: "distinct spec_header"
    using keys ne distinct_keys_build_row [of "hd (all_data agg)"] assms(1)
    by (cases "all_data agg") auto
  have "DataFrame ?rows = \<lparr>columns = spec_header, df_values = map (map snd) ?rows\<rparr>"
    by (rule DataFrame_same_keys [OF ne keys dist])
  then show ?thesis
    using assms(1,3)
    by (simp add: export_to_excel_def to_excel_def Let_def values_build_row comp_def)
qed

lemma foldl_enumerate_map:
  assumes "\<And>row i x. g row (i, h x) = g row (i, x)"
  shows "foldl g row (enumerate n (map h xs)) = foldl g row (enumerate n xs)"
  using assms by (induction xs arbitrary: n row) simp_all

text \<open>The row built for a record does not depend on the question texts.\<close>

lemma build_row_question:
  "build_row (d\<lparr>questions_answers := map (question_update f) (questions_answers d)\<rparr>)
     = build_row d"
  by (simp add: build_row_def Let_def foldl_enumerate_map)

section \<open>The claims\<close>

text \<open>
  Claim C10.  Whatever the aggregator holds, \<^verbatim>\<open>add_questionnaire\<close> called with the absent
  result (\<^verbatim>\<open>None\<close>, what a failed extraction returns) leaves the report as it is: nothing is
  appended, and an export afterwards is the export of the report before.
\<close>

theorem add_questionnaire_absent_unchanged:
  "add_questionnaire agg None = agg \<and>
   all_data (add_questionnaire agg None) = all_data agg \<and>
   export_to_excel env (add_questionnaire agg None) output_file =
     export_to_excel env agg output_file"
  by simp

text \<open>
  Claim C5.  Exporting an empty report writes nothing: the only effect is the printed line
  \<^verbatim>\<open>No data to export\<close>.  That outcome differs from the outcome of every export of a report
  that is not empty, whether the writer raises or not.  (The method returns \<^verbatim>\<open>None\<close> in both
  cases; it is the printed line that tells them apart.)
\<close>

theorem export_empty_is_noop:
  assumes "all_data agg = []"
  shows "export_to_excel env agg output_file = ([Print ''No data to export''], None) \<and>
         (\<forall>agg' file'. all_data agg' \<noteq> [] \<longrightarrow>
            export_to_excel env agg' file' \<noteq> export_to_excel env agg output_file)"
  using assms by (auto simp add: export_to_excel_def Let_def split: option.splits)

theorem export_empty_is_noop_witness:
  "all_data (new_aggregator :: string aggregator) = [] \<and>
   export_to_excel scenario_world new_aggregator ''out.xlsx'' =
     ([Print ''No data to export''], None) \<and>
   all_data \<lparr>all_data = [r1_record]\<rparr> \<noteq> [] \<and>
   export_to_excel scenario_world \<lparr>all_data = [r1_record]\<rparr> ''out.xlsx'' \<noteq>
     export_to_excel scenario_world new_aggregator ''out.xlsx''"
proof -
  have h: "all_data (new_aggregator :: string aggregator) = []"
    by (simp add: new_aggregator_def)
  note t = export_empty_is_noop [OF h, of scenario_world "''out.xlsx''"]
  from t have a: "export_to_excel scenario_world new_aggregator ''out.xlsx'' =
      ([Print ''No data to export''], None)" by (rule conjunct1)
  have ne: "all_data \<lparr>all_data = [r1_record]\<rparr> \<noteq> []" by simp
  from t ne have "export_to_excel scenario_world \<lparr>all_data = [r1_record]\<rparr> ''out.xlsx'' \<noteq>
      export_to_excel scenario_world new_aggregator ''out.xlsx''" by blast
  with h a ne show ?thesis by blast
qed

text \<open>
  Claim C2.  Whenever \<^verbatim>\<open>extract_data\<close> returns a record, the file loaded as a workbook whose
  active sheet is a worksheet, the record has exactly 17 question rows, and row \<open>i\<close> (counted
  from 0) holds the cells B, C and D of sheet row \<open>3 + i\<close> as they are: an empty cell stays
  \<^const>\<open>None\<close>.
\<close>

theorem extracted_record_has_17_rows:
  assumes "extract_data env file_path folder = (evs, Some d)"
  shows "length (questions_answers d) = 17 \<and>
         (\<exists>ws. load_workbook env file_path = Inr (Workbook (Worksheet ws)) \<and>
            (\<forall>i<17. questions_answers d ! i =
               \<lparr>question = ws (''B'' @ str_nat (3 + i)),
                answer = ws (''C'' @ str_nat (3 + i)),
                comment = ws (''D'' @ str_nat (3 + i))\<rparr>))"
proof -
  from assms obtain ws where
    wb: "load_workbook env file_path = Inr (Workbook (Worksheet ws))" and
    d: "questions_answers d = map (qa_of_row ws) [3..<20]"
    by (auto elim!: extract_data_Some)
  have "questions_answers d ! i = qa_of_row ws (3 + i)" if "i < 17" for i
    using that by (simp add: d del: upt_rec_numeral)
  with wb d show ?thesis
    by (auto simp add: qa_of_row_def simp del: upt_rec_numeral)
qed

theorem extracted_record_has_17_rows_witness:
  "extract_data scenario_world ''/data/Unit-A/r1.xlsx'' ''Unit-A'' =
     ([LoadWorkbook ''/data/Unit-A/r1.xlsx'', CloseWorkbook ''/data/Unit-A/r1.xlsx''],
      Some r1_record) \<and>
   length (questions_answers r1_record) = 17 \<and>
   questions_answers r1_record ! 0 =
     \<lparr>question = None, answer = Some ''Yes'', comment = Some ''ok''\<rparr> \<and>
   questions_answers r1_record ! 16 = \<lparr>question = None, answer = None, comment = None\<rparr>"
proof -
  note h = r1_extract
  from extracted_record_has_17_rows [OF h] have "length (questions_answers r1_record) = 17"
    by simp
  with h show ?thesis by (simp add: r1_record_def replicate16)
qed



text \<open>
  What the read failure does skip is the call: on a workbook whose active sheet is a chart
  sheet the trace has the load and the printed error, and no \<^verbatim>\<open>close\<close>.  Had the workbook
  been loaded read-only, its archive would be open at the return.
\<close>

lemma close_call_skipped_on_read_failure:
  "extract_data chart_world ''/data/Unit-A/chart.xlsx'' ''Unit-A'' =
     ([LoadWorkbook ''/data/Unit-A/chart.xlsx'',
       Print ''Error extracting data from /data/Unit-A/chart.xlsx: 'Chartsheet' object is not subscriptable''],
      None) \<and>
   CloseWorkbook ''/data/Unit-A/chart.xlsx''
     \<notin> set (fst (extract_data chart_world ''/data/Unit-A/chart.xlsx'' ''Unit-A''))"
  by (simp add: extract_data_def extract_try_Chartsheet chart_world_def)

lemma read_only_load_would_stay_open:
  "open_archives True (fst (extract_data chart_world ''/data/Unit-A/chart.xlsx'' ''Unit-A''))
     = [''/data/Unit-A/chart.xlsx'']"
  by (simp add: extract_data_def extract_try_Chartsheet chart_world_def open_archives_def)

text \<open>
  Claim C3, at an input where it fails.  A file named \<^verbatim>\<open>REPORT.XLSX\<close> is returned by the local
  listing, which lowers the suffix before comparing, and dropped by the SharePoint listing,
  whose \<^verbatim>\<open>endswith\<close> compares the name as it is.
\<close>

theorem sharepoint_listing_is_case_sensitive:
  "sp_get_excel_files_in_folder upper_world ''/sites/q/Unit-A'' = ([], []) \<and>
   local_get_excel_files_in_folder upper_world ''/data/Unit-A'' =
     ([], [\<lparr>name = ''REPORT.XLSX'', str_path = ''/data/Unit-A/REPORT.XLSX'',
           is_dir = False, is_file = True\<rparr>])"
  by (simp add: sp_get_excel_files_in_folder_def local_get_excel_files_in_folder_def
      upper_world_def empty_world_def dict_get_def endswith_def startswith_def
      suffix_def lower_def lower_char_def)

text \<open>
  Claim C9, at an input where it fails.  The sheet has a question text in B3, and the record
  \<^verbatim>\<open>extract_data\<close> returns holds it, under the key \<^verbatim>\<open>question\<close> of its first question row.
\<close>

theorem question_text_is_retained_counterexample:
  "extract_data asked_world ''/data/Unit-A/r2.xlsx'' ''Unit-A'' =
     ([LoadWorkbook ''/data/Unit-A/r2.xlsx'', CloseWorkbook ''/data/Unit-A/r2.xlsx''],
      Some \<lparr>source_folder = ''Unit-A'', application = Some ''App1'',
            responsible = Some ''Alice'', deputy = Some ''Bob'',
            questions_answers =
              \<lparr>question = Some ''Is the data backed up?'', answer = Some ''Yes'',
               comment = Some ''ok''\<rparr>
              # replicate 16 \<lparr>question = None, answer = None, comment = None\<rparr>\<rparr>)"
proof -
  have "load_workbook asked_world ''/data/Unit-A/r2.xlsx'' =
      Inr (Workbook (Worksheet asked_sheet))"
    by (simp add: asked_world_def)
  from extract_data_Worksheet [OF this] show ?thesis
    by (simp add: asked_sheet_def r1_sheet_def qa_of_row_def str_nat.simps upt_conv_Cons
        replicate16)
qed

text \<open>
  Claim C9 as amended.  Every record \<^verbatim>\<open>extract_data\<close> returns keeps the question texts: the
  field \<^verbatim>\<open>question\<close> of its question rows holds the cells B3 to B19, in that order.  It is the
  export that leaves them out: the row built for the record is the same whatever the
  question texts are.
\<close>

theorem question_text_kept_in_record_not_in_row:
  assumes "extract_data env file_path folder = (evs, Some d)"
  shows "(\<exists>ws. load_workbook env file_path = Inr (Workbook (Worksheet ws)) \<and>
            map question (questions_answers d) = map (\<lambda>row. ws (''B'' @ str_nat row)) [3..<20]) \<and>
         (\<forall>f. build_row (d\<lparr>questions_answers := map (question_update f) (questions_answers d)\<rparr>)
               = build_row d)"
proof -
  from assms obtain ws where
    wb: "load_workbook env file_path = Inr (Workbook (Worksheet ws))" and
    d: "questions_answers d = map (qa_of_row ws) [3..<20]"
    by (auto elim!: extract_data_Some)
  have "map question (questions_answers d) = map (\<lambda>row. ws (''B'' @ str_nat row)) [3..<20]"
    unfolding d by (simp add: qa_of_row_def comp_def del: upt_rec_numeral)
  with wb show ?thesis by (simp add: build_row_question)
qed

theorem question_text_kept_in_record_not_in_row_witness:
  "extract_data scenario_world ''/data/Unit-A/r1.xlsx'' ''Unit-A'' =
     ([LoadWorkbook ''/data/Unit-A/r1.xlsx'', CloseWorkbook ''/data/Unit-A/r1.xlsx''],
      Some r1_record) \<and>
   build_row (r1_record\<lparr>questions_answers :=
       map (question_update (\<lambda>_. Some ''?'')) (questions_answers r1_record)\<rparr>)
     = build_row r1_record"
proof -
  note h = r1_extract
  from question_text_kept_in_record_not_in_row [OF h] h show ?thesis by blast
qed

text \<open>
  Claim C4, at an input where it fails.  The run finds one folder with one file that is not
  a spreadsheet.  The run state is the trace and the aggregator, and \<^verbatim>\<open>main\<close> keeps no
  failure counter: after the failed file the only count there is, the number of collected
  records, is still 0, and the summary reports that count alone.
\<close>

theorem no_failure_counter_counterexample:
  "main_local corrupt_world ''/data'' ''out.xlsx'' =
     (\<lparr>trace =
         [Print ''Scanning folders in: /data'',
          Print ''Found 1 folders'',
          Print ''\<newline>Processing folder: Unit-A'',
          Print ''  Found 1 Excel file(s)'',
          Print ''    Processing: bad.xlsx'',
          Print ''Error extracting data from /data/Unit-A/bad.xlsx: File is not a zip file'',
          Print ''      Failed to extract data from bad.xlsx'',
          Print (''\<newline>'' @ replicate 50 (CHR ''='')),
          Print ''No data to export'',
          Print ''\<newline>Processing complete! Total questionnaires processed: 0''],
       aggregator = \<lparr>all_data = []\<rparr>\<rparr>,
      None)"
proof -
  have folders: "get_folders corrupt_world ''/data'' =
     ([], [\<lparr>name = ''Unit-A'', str_path = ''/data/Unit-A'', is_dir = True, is_file = False\<rparr>])"
    by (simp add: get_folders_def corrupt_world_def startswith_def)
  have files: "local_get_excel_files_in_folder corrupt_world ''/data/Unit-A'' =
     ([], [\<lparr>name = ''bad.xlsx'', str_path = ''/data/Unit-A/bad.xlsx'',
           is_dir = False, is_file = True\<rparr>])"
    by (simp add: local_get_excel_files_in_folder_def corrupt_world_def startswith_def
        suffix_def lower_def lower_char_def)
  have "load_workbook corrupt_world ''/data/Unit-A/bad.xlsx'' =
      Inl (Exception ''File is not a zip file'')"
    by (simp add: corrupt_world_def)
  note failed = extract_data_load_fails [OF this, of "''Unit-A''"]
  have loop: "foldl (local_process_folder corrupt_world)
      \<lparr>trace = [Print ''Scanning folders in: /data'', Print ''Found 1 folders''],
       aggregator = new_aggregator\<rparr>
      [\<lparr>name = ''Unit-A'', str_path = ''/data/Unit-A'', is_dir = True, is_file = False\<rparr>] =
      \<lparr>trace =
         [Print ''Scanning folders in: /data'',
          Print ''Found 1 folders'',
          Print ''\<newline>Processing folder: Unit-A'',
          Print ''  Found 1 Excel file(s)'',
          Print ''    Processing: bad.xlsx'',
          Print ''Error extracting data from /data/Unit-A/bad.xlsx: File is not a zip file'',
          Print ''      Failed to extract data from bad.xlsx''],
       aggregator = \<lparr>all_data = []\<rparr>\<rparr>"
    by (simp add: local_process_folder_def files local_process_file_def failed emit_def
        new_aggregator_def str_nat_small_values Let_def)
  show ?thesis
    by (simp add: main_local_def folders loop finish_def export_to_excel_def emit_def
        str_nat_small_values Let_def del: foldl_Cons)
qed

text \<open>
  Claim C4 as amended.  When loading the file raises \<open>e\<close>, or the file loads and the first
  cell read raises \<open>e\<close>, \<^verbatim>\<open>extract_data\<close> returns \<^verbatim>\<open>None\<close> and raises nothing, and apart from
  the opening of the workbook its only effect is one printed line with the file path and the
  text of \<open>e\<close>.  The loop body of \<^verbatim>\<open>main\<close> then leaves the aggregator as it was and prints
  exactly one line \<^verbatim>\<open>Failed to extract data from\<close> with the file name; no counter is kept.
  This holds in local mode, for the file itself, and in SharePoint mode, for the copy that
  was downloaded into the temporary directory.
\<close>

theorem extraction_failure_is_absorbed:
  "(load_workbook env (str_path file) = Inl e \<or>
    (\<exists>wb. load_workbook env (str_path file) = Inr wb \<and>
          cell_value (active wb) ''B1'' = Inl e) \<longrightarrow>
      snd (extract_data env (str_path file) folder) = None \<and>
      [ev \<leftarrow> fst (extract_data env (str_path file) folder).
         ev \<noteq> LoadWorkbook (str_path file)] =
        [Print (''Error extracting data from '' @ str_path file @ '': '' @ str_exn e)] \<and>
      aggregator (local_process_file env folder st file) = aggregator st \<and>
      [ev \<leftarrow> trace (local_process_file env folder st file).
         ev \<noteq> LoadWorkbook (str_path file)] =
        [ev \<leftarrow> trace st. ev \<noteq> LoadWorkbook (str_path file)] @
        [Print (''    Processing: '' @ name file),
         Print (''Error extracting data from '' @ str_path file @ '': '' @ str_exn e),
         Print (''      Failed to extract data from '' @ name file)]) \<and>
   (local_path = os_path_join temp_dir (dict_get (properties sp_file) ''Name'' '''') \<and>
    download env (dict_get (properties sp_file) ''ServerRelativeUrl'' '''') local_path = None \<and>
    (load_workbook env local_path = Inl e' \<or>
     (\<exists>wb. load_workbook env local_path = Inr wb \<and>
           cell_value (active wb) ''B1'' = Inl e')) \<longrightarrow>
      snd (extract_data env local_path folder) = None \<and>
      [ev \<leftarrow> fst (extract_data env local_path folder). ev \<noteq> LoadWorkbook local_path] =
        [Print (''Error extracting data from '' @ local_path @ '': '' @ str_exn e')] \<and>
      aggregator (sp_process_file env temp_dir folder st sp_file) = aggregator st \<and>
      [ev \<leftarrow> trace (sp_process_file env temp_dir folder st sp_file).
         ev \<noteq> LoadWorkbook local_path] =
        [ev \<leftarrow> trace st. ev \<noteq> LoadWorkbook local_path] @
        [Print (''    Processing: '' @ dict_get (properties sp_file) ''Name'' ''''),
         Print (''Error extracting data from '' @ local_path @ '': '' @ str_exn e'),
         Print (''      Failed to extract data from ''
                @ dict_get (properties sp_file) ''Name'' '''')])"
proof (rule conjI; rule impI)
  assume "load_workbook env (str_path file) = Inl e \<or>
    (\<exists>wb. load_workbook env (str_path file) = Inr wb \<and>
          cell_value (active wb) ''B1'' = Inl e)"
  then show "snd (extract_data env (str_path file) folder) = None \<and>
      [ev \<leftarrow> fst (extract_data env (str_path file) folder).
         ev \<noteq> LoadWorkbook (str_path file)] =
        [Print (''Error extracting data from '' @ str_path file @ '': '' @ str_exn e)] \<and>
      aggregator (local_process_file env folder st file) = aggregator st \<and>
      [ev \<leftarrow> trace (local_process_file env folder st file).
         ev \<noteq> LoadWorkbook (str_path file)] =
        [ev \<leftarrow> trace st. ev \<noteq> LoadWorkbook (str_path file)] @
        [Print (''    Processing: '' @ name file),
         Print (''Error extracting data from '' @ str_path file @ '': '' @ str_exn e),
         Print (''      Failed to extract data from '' @ name file)]"
  proof
    assume "load_workbook env (str_path file) = Inl e"
    then show ?thesis
      by (simp add: local_process_file_def Let_def extract_data_load_fails)
  next
    assume "\<exists>wb. load_workbook env (str_path file) = Inr wb \<and>
                 cell_value (active wb) ''B1'' = Inl e"
    then obtain wb where "load_workbook env (str_path file) = Inr wb"
      "cell_value (active wb) ''B1'' = Inl e" by blast
    then show ?thesis
      by (simp add: local_process_file_def Let_def extract_data_read_fails)
  qed
next
  assume sp: "local_path = os_path_join temp_dir (dict_get (properties sp_file) ''Name'' '''') \<and>
    download env (dict_get (properties sp_file) ''ServerRelativeUrl'' '''') local_path = None \<and>
    (load_workbook env local_path = Inl e' \<or>
     (\<exists>wb. load_workbook env local_path = Inr wb \<and>
           cell_value (active wb) ''B1'' = Inl e'))"
  then have lp: "os_path_join temp_dir (dict_get (properties sp_file) ''Name'' '''') = local_path"
    and dn: "download env (dict_get (properties sp_file) ''ServerRelativeUrl'' '''')
        local_path = None"
    by blast+
  from dn have dl: "download_file env (dict_get (properties sp_file) ''ServerRelativeUrl'' '''')
        local_path = ([], True)"
    unfolding download_file_def by simp
  from sp have "load_workbook env local_path = Inl e' \<or>
     (\<exists>wb. load_workbook env local_path = Inr wb \<and>
           cell_value (active wb) ''B1'' = Inl e')"
    by blast
  then show "snd (extract_data env local_path folder) = None \<and>
      [ev \<leftarrow> fst (extract_data env local_path folder). ev \<noteq> LoadWorkbook local_path] =
        [Print (''Error extracting data from '' @ local_path @ '': '' @ str_exn e')] \<and>
      aggregator (sp_process_file env temp_dir folder st sp_file) = aggregator st \<and>
      [ev \<leftarrow> trace (sp_process_file env temp_dir folder st sp_file).
         ev \<noteq> LoadWorkbook local_path] =
        [ev \<leftarrow> trace st. ev \<noteq> LoadWorkbook local_path] @
        [Print (''    Processing: '' @ dict_get (properties sp_file) ''Name'' ''''),
         Print (''Error extracting data from '' @ local_path @ '': '' @ str_exn e'),
         Print (''      Failed to extract data from ''
                @ dict_get (properties sp_file) ''Name'' '''')]"
  proof
    assume "load_workbook env local_path = Inl e'"
    then show ?thesis
      by (simp add: sp_process_file_def Let_def lp dl extract_data_load_fails)
  next
    assume "\<exists>wb. load_workbook env local_path = Inr wb \<and>
                 cell_value (active wb) ''B1'' = Inl e'"
    then obtain wb where "load_workbook env local_path = Inr wb"
      "cell_value (active wb) ''B1'' = Inl e'" by blast
    then show ?thesis
      by (simp add: sp_process_file_def Let_def lp dl extract_data_read_fails)
  qed
qed

theorem extraction_failure_is_absorbed_witness:
  "load_workbook sp_corrupt_world ''/data/Unit-A/bad.xlsx'' =
     Inl (Exception ''File is not a zip file'') \<and>
   extract_data sp_corrupt_world ''/data/Unit-A/bad.xlsx'' ''Unit-A'' =
     ([Print ''Error extracting data from /data/Unit-A/bad.xlsx: File is not a zip file''],
      None) \<and>
   aggregator (local_process_file sp_corrupt_world ''Unit-A''
       \<lparr>trace = [], aggregator = \<lparr>all_data = [r1_record]\<rparr>\<rparr>
       \<lparr>name = ''bad.xlsx'', str_path = ''/data/Unit-A/bad.xlsx'',
        is_dir = False, is_file = True\<rparr>) = \<lparr>all_data = [r1_record]\<rparr> \<and>
   os_path_join ''/tmp/run'' ''bad.xlsx'' = ''/tmp/run/bad.xlsx'' \<and>
   download sp_corrupt_world ''/sites/q/Unit-A/bad.xlsx'' ''/tmp/run/bad.xlsx'' = None \<and>
   load_workbook sp_corrupt_world ''/tmp/run/bad.xlsx'' =
     Inl (Exception ''File is not a zip file'') \<and>
   sp_process_file sp_corrupt_world ''/tmp/run'' ''Unit-A''
       \<lparr>trace = [], aggregator = \<lparr>all_data = [r1_record]\<rparr>\<rparr>
       \<lparr>properties = [''Name'' \<mapsto> ''bad.xlsx'',
                      ''ServerRelativeUrl'' \<mapsto> ''/sites/q/Unit-A/bad.xlsx'']\<rparr> =
     \<lparr>trace =
        [Print ''    Processing: bad.xlsx'',
         Print ''Error extracting data from /tmp/run/bad.xlsx: File is not a zip file'',
         Print ''      Failed to extract data from bad.xlsx''],
      aggregator = \<lparr>all_data = [r1_record]\<rparr>\<rparr>"
proof -
  let ?file = "\<lparr>name = ''bad.xlsx'', str_path = ''/data/Unit-A/bad.xlsx'',
      is_dir = False, is_file = True\<rparr>"
  let ?spf = "\<lparr>properties = [''Name'' \<mapsto> ''bad.xlsx'',
      ''ServerRelativeUrl'' \<mapsto> ''/sites/q/Unit-A/bad.xlsx'']\<rparr>"
  let ?st = "\<lparr>trace = [], aggregator = \<lparr>all_data = [r1_record]\<rparr>\<rparr>"
  let ?e = "Exception ''File is not a zip file''"
  have nm: "dict_get (properties ?spf) ''Name'' '''' = ''bad.xlsx''"
    and url: "dict_get (properties ?spf) ''ServerRelativeUrl'' '''' = ''/sites/q/Unit-A/bad.xlsx''"
    by (simp_all add: dict_get_def)
  have h: "load_workbook sp_corrupt_world (str_path ?file) = Inl ?e"
    by (simp add: sp_corrupt_world_def corrupt_world_def)
  have j: "os_path_join ''/tmp/run'' ''bad.xlsx'' = ''/tmp/run/bad.xlsx''"
    by (simp add: os_path_join_def startswith_def endswith_def)
  have d: "download sp_corrupt_world ''/sites/q/Unit-A/bad.xlsx'' ''/tmp/run/bad.xlsx'' = None"
    by (simp add: sp_corrupt_world_def)
  have l: "load_workbook sp_corrupt_world ''/tmp/run/bad.xlsx'' = Inl ?e"
    by (simp add: sp_corrupt_world_def)
  note t = extraction_failure_is_absorbed [of sp_corrupt_world ?file ?e "''Unit-A''" ?st
      "''/tmp/run/bad.xlsx''" "''/tmp/run''" ?spf ?e]
  have x: "extract_data sp_corrupt_world ''/data/Unit-A/bad.xlsx'' ''Unit-A'' =
     ([Print ''Error extracting data from /data/Unit-A/bad.xlsx: File is not a zip file''],
      None)"
    using extract_data_load_fails [OF h, of "''Unit-A''"] by simp
  from t h nm url j d l have
    a: "aggregator (local_process_file sp_corrupt_world ''Unit-A'' ?st ?file) = aggregator ?st"
    and b: "aggregator (sp_process_file sp_corrupt_world ''/tmp/run'' ''Unit-A'' ?st ?spf)
        = aggregator ?st"
    by simp_all
  have tr: "trace (sp_process_file sp_corrupt_world ''/tmp/run'' ''Unit-A'' ?st ?spf) =
        [Print ''    Processing: bad.xlsx'',
         Print ''Error extracting data from /tmp/run/bad.xlsx: File is not a zip file'',
         Print ''      Failed to extract data from bad.xlsx'']"
    using extract_data_load_fails [OF l, of "''Unit-A''"] nm url j d
    by (simp add: sp_process_file_def Let_def download_file_def)
  from b tr have "sp_process_file sp_corrupt_world ''/tmp/run'' ''Unit-A'' ?st ?spf =
      \<lparr>trace =
        [Print ''    Processing: bad.xlsx'',
         Print ''Error extracting data from /tmp/run/bad.xlsx: File is not a zip file'',
         Print ''      Failed to extract data from bad.xlsx''],
      aggregator = \<lparr>all_data = [r1_record]\<rparr>\<rparr>"
    by (cases "sp_process_file sp_corrupt_world ''/tmp/run'' ''Unit-A'' ?st ?spf") simp
  with a h x j d l show ?thesis by simp
qed

subsection \<open>The scenario of the specification, run\<close>

lemma scenario_folders:
  "get_folders scenario_world ''/data'' =
     ([], [\<lparr>name = ''Unit-A'', str_path = ''/data/Unit-A'', is_dir = True, is_file = False\<rparr>,
           \<lparr>name = ''Unit-B'', str_path = ''/data/Unit-B'', is_dir = True, is_file = False\<rparr>])"
  by (simp add: get_folders_def scenario_world_def startswith_def)

lemma scenario_files_a:
  "local_get_excel_files_in_folder scenario_world ''/data/Unit-A'' =
     ([], [\<lparr>name = ''r1.xlsx'', str_path = ''/data/Unit-A/r1.xlsx'',
           is_dir = False, is_file = True\<rparr>])"
  by (simp add: local_get_excel_files_in_folder_def scenario_world_def startswith_def
      suffix_def lower_def lower_char_def)

lemma scenario_files_b:
  "local_get_excel_files_in_folder scenario_world ''/data/Unit-B'' = ([], [])"
  by (simp add: local_get_excel_files_in_folder_def scenario_world_def)

lemma scenario_writer: "excel_writer scenario_world file = None"
  by (simp add: scenario_world_def empty_world_def)

lemma r1_rows: "length (questions_answers r1_record) = 17"
  by (simp add: r1_record_def)

lemma scenario_export:
  "export_to_excel scenario_world \<lparr>all_data = [r1_record]\<rparr> ''out.xlsx'' =
     ([WriteExcel ''out.xlsx''
         [map Label spec_header,
          [Data (Some ''App1''), Data (Some ''Alice''), Data (Some ''Alice''),
           Data (Some ''Bob''), Data (Some ''Yes'')]
          @ replicate 16 (Data None) @ [Data (Some ''ok'')] @ replicate 16 (Data None)],
       Print ''Aggregated data exported to: out.xlsx''], None)"
  using export_table [of "\<lparr>all_data = [r1_record]\<rparr>" scenario_world "''out.xlsx''"]
    scenario_writer r1_rows
  by (simp add: r1_record_def)

lemma scenario_loop:
  "foldl (local_process_folder scenario_world)
     \<lparr>trace = [Print ''Scanning folders in: /data'', Print ''Found 2 folders''],
      aggregator = new_aggregator\<rparr>
     [\<lparr>name = ''Unit-A'', str_path = ''/data/Unit-A'', is_dir = True, is_file = False\<rparr>,
      \<lparr>name = ''Unit-B'', str_path = ''/data/Unit-B'', is_dir = True, is_file = False\<rparr>] =
     \<lparr>trace =
         [Print ''Scanning folders in: /data'',
          Print ''Found 2 folders'',
          Print ''\<newline>Processing folder: Unit-A'',
          Print ''  Found 1 Excel file(s)'',
          Print ''    Processing: r1.xlsx'',
          LoadWorkbook ''/data/Unit-A/r1.xlsx'',
          CloseWorkbook ''/data/Unit-A/r1.xlsx'',
          Print ''      Extracted data from r1.xlsx'',
          Print ''\<newline>Processing folder: Unit-B'',
          Print ''  Found 0 Excel file(s)''],
       aggregator = \<lparr>all_data = [r1_record]\<rparr>\<rparr>"
  by (simp add: local_process_folder_def scenario_files_a scenario_files_b
      local_process_file_def r1_extract emit_def new_aggregator_def
      str_nat_small_values Let_def)

lemma scenario_run:
  "main_local scenario_world ''/data'' ''out.xlsx'' =
     (\<lparr>trace =
         [Print ''Scanning folders in: /data'',
          Print ''Found 2 folders'',
          Print ''\<newline>Processing folder: Unit-A'',
          Print ''  Found 1 Excel file(s)'',
          Print ''    Processing: r1.xlsx'',
          LoadWorkbook ''/data/Unit-A/r1.xlsx'',
          CloseWorkbook ''/data/Unit-A/r1.xlsx'',
          Print ''      Extracted data from r1.xlsx'',
          Print ''\<newline>Processing folder: Unit-B'',
          Print ''  Found 0 Excel file(s)'',
          Print (''\<newline>'' @ replicate 50 (CHR ''='')),
          WriteExcel ''out.xlsx''
            [map Label spec_header,
             [Data (Some ''App1''), Data (Some ''Alice''), Data (Some ''Alice''),
              Data (Some ''Bob''), Data (Some ''Yes'')]
             @ replicate 16 (Data None) @ [Data (Some ''ok'')] @ replicate 16 (Data None)],
          Print ''Aggregated data exported to: out.xlsx'',
          Print ''\<newline>Processing complete! Total questionnaires processed: 1''],
       aggregator = \<lparr>all_data = [r1_record]\<rparr>\<rparr>,
      None)"
  by (simp add: main_local_def scenario_folders scenario_loop finish_def scenario_export
      emit_def str_nat_small_values Let_def del: foldl_Cons)

subsection \<open>The cells of an exported row\<close>

lemma nth_after_prefix: "length xs = n \<Longrightarrow> (xs @ ys) ! (n + i) = ys ! i"
  by (auto simp: nth_append)

lemma exported_row_cells:
  assumes "length qas = 17" "i < 17"
  shows "map Data ([a, r, r', p] @ map answer qas @ map comment qas) ! (4 + i)
           = Data (answer (qas ! i))"
    and "map Data ([a, r, r', p] @ map answer qas @ map comment qas) ! (21 + i)
           = Data (comment (qas ! i))"
proof -
  let ?m = "map Data [a, r, r', p]"
  let ?as = "map Data (map answer qas)"
  let ?cs = "map Data (map comment qas)"
  have split: "map Data ([a, r, r', p] @ map answer qas @ map comment qas) = ?m @ ?as @ ?cs"
    by simp
  have "(?m @ ?as @ ?cs) ! (4 + i) = (?as @ ?cs) ! i"
    by (rule nth_after_prefix) simp
  also have "\<dots> = Data (answer (qas ! i))" using assms by (simp add: nth_append)
  finally show "map Data ([a, r, r', p] @ map answer qas @ map comment qas) ! (4 + i)
           = Data (answer (qas ! i))"
    unfolding split .
  have "((?m @ ?as) @ ?cs) ! (21 + i) = ?cs ! i"
    by (rule nth_after_prefix) (simp add: assms)
  also have "\<dots> = Data (comment (qas ! i))" using assms by simp
  finally show "map Data ([a, r, r', p] @ map answer qas @ map comment qas) ! (21 + i)
           = Data (comment (qas ! i))"
    unfolding split by simp
qed

lemma spec_header_labels:
  assumes "i < 17"
  shows "spec_header ! (4 + i) = ''Q'' @ str_nat (i + 1)"
    and "spec_header ! (21 + i) = ''COMM Q'' @ str_nat (i + 1)"
proof -
  let ?m = "[''Application'', ''Answered'', ''App Responsible'', ''Deputy'']"
  let ?qs = "map (\<lambda>i. ''Q'' @ str_nat i) [1..<1 + 17]"
  let ?cs = "map (\<lambda>i. ''COMM Q'' @ str_nat i) [1..<1 + 17]"
  have h: "spec_header = ?m @ ?qs @ ?cs" by (rule keys_17 [symmetric])
  have "(?m @ ?qs @ ?cs) ! (4 + i) = (?qs @ ?cs) ! i"
    by (rule nth_after_prefix) simp
  also have "\<dots> = ''Q'' @ str_nat (i + 1)"
    using assms by (simp add: nth_append del: upt_rec_numeral)
  finally show "spec_header ! (4 + i) = ''Q'' @ str_nat (i + 1)" unfolding h .
  have "((?m @ ?qs) @ ?cs) ! (21 + i) = ?cs ! i"
    by (rule nth_after_prefix) simp
  also have "\<dots> = ''COMM Q'' @ str_nat (i + 1)"
    using assms by (simp del: upt_rec_numeral)
  finally show "spec_header ! (21 + i) = ''COMM Q'' @ str_nat (i + 1)"
    unfolding h by (simp del: upt_rec_numeral)
qed

text \<open>
  Claim C1.  Take a report that is not empty and whose records each have 17 question rows
  (what \<^verbatim>\<open>extract_data\<close> builds), and let the writer not raise.  Then the export writes one
  sheet: first the header row of the output contract, then one row per record, in the order
  of the report, with nothing in front of the first column; the row of a record is its
  application, its responsible party twice, its deputy, its 17 answers and its 17 comments.
  So the cell under \<open>Q(i+1)\<close> is the answer of question row \<open>i\<close>, and the cell under
  \<open>COMM Q(i+1)\<close> its comment.  Rows are neither sorted nor merged: the sheet has as many data
  rows as the report has records.
\<close>

theorem export_one_row_per_record:
  assumes "all_data agg \<noteq> []"
      and "\<forall>d\<in>set (all_data agg). length (questions_answers d) = 17"
      and "excel_writer env output_file = None"
  shows "\<exists>sheet.
     export_to_excel env agg output_file =
       ([WriteExcel output_file sheet,
         Print (''Aggregated data exported to: '' @ output_file)], None) \<and>
     sheet = map Label spec_header
             # map (\<lambda>d. map Data ([application d, responsible d, responsible d, deputy d]
                                   @ map answer (questions_answers d)
                                   @ map comment (questions_answers d)))
                 (all_data agg) \<and>
     length sheet = 1 + length (all_data agg) \<and>
     (\<forall>j<length (all_data agg). \<forall>i<17.
        hd sheet ! (4 + i) = Label (''Q'' @ str_nat (i + 1)) \<and>
        sheet ! (1 + j) ! (4 + i) = Data (answer (questions_answers (all_data agg ! j) ! i)) \<and>
        hd sheet ! (21 + i) = Label (''COMM Q'' @ str_nat (i + 1)) \<and>
        sheet ! (1 + j) ! (21 + i) = Data (comment (questions_answers (all_data agg ! j) ! i)))"
proof -
  let ?row = "\<lambda>d. map Data ([application d, responsible d, responsible d, deputy d]
                                   @ map answer (questions_answers d)
                                   @ map comment (questions_answers d))"
  let ?sheet = "map Label spec_header # map ?row (all_data agg)"
  have len_header: "length spec_header = 38" by (simp add: spec_header_def)
  have cells: "hd ?sheet ! (4 + i) = Label (''Q'' @ str_nat (i + 1)) \<and>
        ?sheet ! (1 + j) ! (4 + i) = Data (answer (questions_answers (all_data agg ! j) ! i)) \<and>
        hd ?sheet ! (21 + i) = Label (''COMM Q'' @ str_nat (i + 1)) \<and>
        ?sheet ! (1 + j) ! (21 + i) = Data (comment (questions_answers (all_data agg ! j) ! i))"
    if j: "j < length (all_data agg)" and i: "i < 17" for i j
  proof -
    from j assms(2) have len: "length (questions_answers (all_data agg ! j)) = 17" by simp
    from j have row: "?sheet ! (1 + j) = ?row (all_data agg ! j)" by simp
    from i len_header have "map Label spec_header ! (4 + i) = Label (spec_header ! (4 + i))"
      "map Label spec_header ! (21 + i) = Label (spec_header ! (21 + i))"
      by simp_all
    with spec_header_labels [OF i] exported_row_cells [OF len i] row show ?thesis
      by simp
  qed
  from export_table [OF assms] cells show ?thesis by simp
qed

theorem export_one_row_per_record_witness:
  "all_data \<lparr>all_data = [r1_record, r1_record]\<rparr> \<noteq> [] \<and>
   length (questions_answers r1_record) = 17 \<and>
   excel_writer scenario_world ''out.xlsx'' = None \<and>
   export_to_excel scenario_world \<lparr>all_data = [r1_record, r1_record]\<rparr> ''out.xlsx'' =
     ([WriteExcel ''out.xlsx''
         [map Label spec_header,
          [Data (Some ''App1''), Data (Some ''Alice''), Data (Some ''Alice''),
           Data (Some ''Bob''), Data (Some ''Yes'')]
          @ replicate 16 (Data None) @ [Data (Some ''ok'')] @ replicate 16 (Data None),
          [Data (Some ''App1''), Data (Some ''Alice''), Data (Some ''Alice''),
           Data (Some ''Bob''), Data (Some ''Yes'')]
          @ replicate 16 (Data None) @ [Data (Some ''ok'')] @ replicate 16 (Data None)],
       Print ''Aggregated data exported to: out.xlsx''], None)"
proof -
  let ?agg = "\<lparr>all_data = [r1_record, r1_record]\<rparr>"
  have h1: "all_data ?agg \<noteq> []" by simp
  have h2: "\<forall>d\<in>set (all_data ?agg). length (questions_answers d) = 17"
    by (simp add: r1_rows)
  have h3: "excel_writer scenario_world ''out.xlsx'' = None" by (rule scenario_writer)
  from export_one_row_per_record [OF h1 h2 h3] obtain sheet where
    "export_to_excel scenario_world ?agg ''out.xlsx'' =
       ([WriteExcel ''out.xlsx'' sheet, Print (''Aggregated data exported to: '' @ ''out.xlsx'')],
        None)"
    and "sheet = map Label spec_header
             # map (\<lambda>d. map Data ([application d, responsible d, responsible d, deputy d]
                                   @ map answer (questions_answers d)
                                   @ map comment (questions_answers d)))
                 (all_data ?agg)"
    by blast
  with h1 r1_rows h3 show ?thesis by (simp add: r1_record_def)
qed

text \<open>
  Claim C8.  In the row built for a record that \<^verbatim>\<open>extract_data\<close> returned, \<open>Application\<close> is
  cell B1 of the sheet, \<open>Deputy\<close> is D1, and \<open>Answered\<close> and \<open>App Responsible\<close> are both C1.
  In the scenario of the specification the run collects one record and writes one data row:
  App1, Alice, Alice, Bob, then Yes under Q1 and nothing under Q2 to Q17, then ok under
  COMM Q1 and nothing under COMM Q2 to COMM Q17; the empty folder adds no line of failure.
\<close>

theorem metadata_columns_and_scenario:
  "(extract_data env file_path folder = (evs, Some d) \<longrightarrow>
      (\<exists>ws. load_workbook env file_path = Inr (Workbook (Worksheet ws)) \<and>
         map_of (build_row d) ''Application'' = Some (ws ''B1'') \<and>
         map_of (build_row d) ''Answered'' = Some (ws ''C1'') \<and>
         map_of (build_row d) ''App Responsible'' = Some (ws ''C1'') \<and>
         map_of (build_row d) ''Deputy'' = Some (ws ''D1''))) \<and>
   main_local scenario_world ''/data'' ''out.xlsx'' =
     (\<lparr>trace =
         [Print ''Scanning folders in: /data'',
          Print ''Found 2 folders'',
          Print ''\<newline>Processing folder: Unit-A'',
          Print ''  Found 1 Excel file(s)'',
          Print ''    Processing: r1.xlsx'',
          LoadWorkbook ''/data/Unit-A/r1.xlsx'',
          CloseWorkbook ''/data/Unit-A/r1.xlsx'',
          Print ''      Extracted data from r1.xlsx'',
          Print ''\<newline>Processing folder: Unit-B'',
          Print ''  Found 0 Excel file(s)'',
          Print (''\<newline>'' @ replicate 50 (CHR ''='')),
          WriteExcel ''out.xlsx''
            [map Label spec_header,
             [Data (Some ''App1''), Data (Some ''Alice''), Data (Some ''Alice''),
              Data (Some ''Bob''), Data (Some ''Yes'')]
             @ replicate 16 (Data None) @ [Data (Some ''ok'')] @ replicate 16 (Data None)],
          Print ''Aggregated data exported to: out.xlsx'',
          Print ''\<newline>Processing complete! Total questionnaires processed: 1''],
       aggregator = \<lparr>all_data = [r1_record]\<rparr>\<rparr>,
      None)"
proof (intro conjI impI)
  assume "extract_data env file_path folder = (evs, Some d)"
  then obtain ws where
    wb: "load_workbook env file_path = Inr (Workbook (Worksheet ws))" and
    d: "application d = ws ''B1''" "responsible d = ws ''C1''" "deputy d = ws ''D1''"
    by (auto elim!: extract_data_Some)
  have "map_of (build_row d) ''Application'' = Some (application d)"
    "map_of (build_row d) ''Answered'' = Some (responsible d)"
    "map_of (build_row d) ''App Responsible'' = Some (responsible d)"
    "map_of (build_row d) ''Deputy'' = Some (deputy d)"
    unfolding build_row_eq by simp_all
  with wb d show "\<exists>ws. load_workbook env file_path = Inr (Workbook (Worksheet ws)) \<and>
         map_of (build_row d) ''Application'' = Some (ws ''B1'') \<and>
         map_of (build_row d) ''Answered'' = Some (ws ''C1'') \<and>
         map_of (build_row d) ''App Responsible'' = Some (ws ''C1'') \<and>
         map_of (build_row d) ''Deputy'' = Some (ws ''D1'')"
    by simp
qed (rule scenario_run)

theorem metadata_columns_and_scenario_witness:
  "extract_data scenario_world ''/data/Unit-A/r1.xlsx'' ''Unit-A'' =
     ([LoadWorkbook ''/data/Unit-A/r1.xlsx'', CloseWorkbook ''/data/Unit-A/r1.xlsx''],
      Some r1_record) \<and>
   map_of (build_row r1_record) ''Application'' = Some (Some ''App1'') \<and>
   map_of (build_row r1_record) ''Answered'' = Some (Some ''Alice'') \<and>
   map_of (build_row r1_record) ''App Responsible'' = Some (Some ''Alice'') \<and>
   map_of (build_row r1_record) ''Deputy'' = Some (Some ''Bob'')"
proof -
  note h = r1_extract
  have wb: "load_workbook scenario_world ''/data/Unit-A/r1.xlsx'' =
      Inr (Workbook (Worksheet r1_sheet))"
    by (simp add: scenario_world_def)
  from metadata_columns_and_scenario
    [of scenario_world "''/data/Unit-A/r1.xlsx''" "''Unit-A''" _ r1_record] h
  obtain ws where "load_workbook scenario_world ''/data/Unit-A/r1.xlsx'' =
      Inr (Workbook (Worksheet ws))"
    and row: "map_of (build_row r1_record) ''Application'' = Some (ws ''B1'')"
      "map_of (build_row r1_record) ''Answered'' = Some (ws ''C1'')"
      "map_of (build_row r1_record) ''App Responsible'' = Some (ws ''C1'')"
      "map_of (build_row r1_record) ''Deputy'' = Some (ws ''D1'')"
    by blast
  with wb have "ws = r1_sheet" by simp
  with row h show ?thesis by (simp add: r1_sheet_def)
qed

subsection \<open>Every record a run collects has seventeen question rows\<close>

lemma foldl_invariant:
  assumes "P st" "\<And>st x. P st \<Longrightarrow> P (f st x)"
  shows "P (foldl f st xs)"
  using assms by (induction xs arbitrary: st) simp_all

lemma extract_data_rows:
  assumes "extract_data env file_path folder = (evs, Some d)"
  shows "length (questions_answers d) = 17"
  using assms by (auto elim!: extract_data_Some simp del: upt_rec_numeral)

lemma add_extracted_rows:
  assumes "\<forall>d\<in>set (all_data agg). length (questions_answers d) = 17"
  shows "\<forall>d\<in>set (all_data (add_questionnaire agg (snd (extract_data env file_path folder)))).
           length (questions_answers d) = 17"
proof (cases "extract_data env file_path folder")
  case (Pair evs data)
  then show ?thesis
    using assms extract_data_rows [of env file_path folder evs]
    by (cases data) auto
qed

lemma local_process_file_rows:
  assumes "\<forall>d\<in>set (all_data (aggregator st)). length (questions_answers d) = 17"
  shows "\<forall>d\<in>set (all_data (aggregator (local_process_file env folder st file))).
           length (questions_answers d) = 17"
proof (cases "extract_data env (str_path file) folder")
  case (Pair evs data)
  then show ?thesis
    using assms add_extracted_rows [of "aggregator st" env "str_path file" folder]
    by (cases data) (simp_all add: local_process_file_def Let_def)
qed

lemma sp_process_file_rows:
  assumes "\<forall>d\<in>set (all_data (aggregator st)). length (questions_answers d) = 17"
  shows "\<forall>d\<in>set (all_data (aggregator (sp_process_file env temp_dir folder st file))).
           length (questions_answers d) = 17"
proof -
  let ?p = "os_path_join temp_dir (dict_get (properties file) ''Name'' '''')"
  obtain evs data where x: "extract_data env ?p folder = (evs, data)"
    by (cases "extract_data env ?p folder")
  obtain evs' ok where dl: "download_file env
      (dict_get (properties file) ''ServerRelativeUrl'' '''') ?p = (evs', ok)"
    by (cases "download_file env (dict_get (properties file) ''ServerRelativeUrl'' '''') ?p")
  show ?thesis
    using assms add_extracted_rows [of "aggregator st" env ?p folder] x dl
    by (cases data) (simp_all add: sp_process_file_def Let_def)
qed

lemma local_process_folder_rows:
  assumes "\<forall>d\<in>set (all_data (aggregator st)). length (questions_answers d) = 17"
  shows "\<forall>d\<in>set (all_data (aggregator (local_process_folder env st folder))).
           length (questions_answers d) = 17"
  unfolding local_process_folder_def Let_def case_prod_unfold
  by (rule foldl_invariant) (simp_all add: assms local_process_file_rows)

lemma sp_process_folder_rows:
  assumes "\<forall>d\<in>set (all_data (aggregator st)). length (questions_answers d) = 17"
  shows "\<forall>d\<in>set (all_data (aggregator (sp_process_folder env temp_dir st folder))).
           length (questions_answers d) = 17"
  unfolding sp_process_folder_def Let_def case_prod_unfold
  by (rule foldl_invariant) (simp_all add: assms sp_process_file_rows)

lemma aggregator_finish: "aggregator (fst (finish env st output_file)) = aggregator st"
  by (simp add: finish_def Let_def case_prod_unfold split: option.splits)

text \<open>
  The report a run hands to the export satisfies the hypothesis of the export theorems, in
  both modes.
\<close>

lemma main_local_rows:
  "\<forall>d\<in>set (all_data (aggregator (fst (main_local env base_path output_file)))).
     length (questions_answers d) = 17"
  unfolding main_local_def Let_def case_prod_unfold aggregator_finish
  by (rule foldl_invariant) (simp_all add: new_aggregator_def local_process_folder_rows)

lemma main_sharepoint_rows:
  "\<forall>d\<in>set (all_data (aggregator (fst (main_sharepoint env temp_dir folder_path output_file)))).
     length (questions_answers d) = 17"
  unfolding main_sharepoint_def Let_def case_prod_unfold aggregator_finish
  by (rule foldl_invariant) (simp_all add: new_aggregator_def sp_process_folder_rows)

subsection \<open>Listings that fail\<close>

lemma finish_empty:
  assumes "all_data (aggregator st) = []"
  shows "finish env st output_file =
     (emit st [Print (''\<newline>'' @ replicate 50 (CHR ''='')),
               Print ''No data to export'',
               Print ''\<newline>Processing complete! Total questionnaires processed: 0''],
      None)"
  using assms by (simp add: finish_def export_to_excel_def emit_def str_nat_small_values)

text \<open>
  Claim C7.  When enumerating a directory raises \<open>e\<close>, \<^verbatim>\<open>get_folders\<close> and the local
  \<^verbatim>\<open>get_excel_files_in_folder\<close> print one line with the path and the text of \<open>e\<close> and return
  the empty list; so do \<^verbatim>\<open>get_folders_in_path\<close> and the SharePoint
  \<^verbatim>\<open>get_excel_files_in_folder\<close> when the SharePoint listing raises.  The callers go on with
  no entries: a run whose folder listing fails reports 0 folders and runs to its summary,
  and a folder whose file listing fails reports 0 files and leaves the run state otherwise
  as it was.
\<close>

theorem listing_failure_is_not_fatal:
  "(iterdir env p = Inl e1 \<longrightarrow>
      get_folders env p =
        ([Print (''Error getting folders from '' @ p @ '': '' @ str_exn e1)], []) \<and>
      local_get_excel_files_in_folder env p =
        ([Print (''Error getting files from '' @ p @ '': '' @ str_exn e1)], []) \<and>
      main_local env p output_file =
        (\<lparr>trace =
            [Print (''Scanning folders in: '' @ p),
             Print (''Error getting folders from '' @ p @ '': '' @ str_exn e1),
             Print ''Found 0 folders'',
             Print (''\<newline>'' @ replicate 50 (CHR ''='')),
             Print ''No data to export'',
             Print ''\<newline>Processing complete! Total questionnaires processed: 0''],
          aggregator = new_aggregator\<rparr>, None)) \<and>
   (iterdir env (str_path folder) = Inl e2 \<longrightarrow>
      local_process_folder env st folder =
        emit st
          [Print (''\<newline>Processing folder: '' @ name folder),
           Print (''Error getting files from '' @ str_path folder @ '': '' @ str_exn e2),
           Print ''  Found 0 Excel file(s)'']) \<and>
   (sp_folders env q = Inl e3 \<longrightarrow>
      get_folders_in_path env q =
        ([Print (''Error getting folders from '' @ q @ '': '' @ str_exn e3)], []) \<and>
      main_sharepoint env temp_dir q output_file =
        (\<lparr>trace =
            [Print (''\<newline>Scanning folder: '' @ q),
             Print (''Error getting folders from '' @ q @ '': '' @ str_exn e3),
             Print ''Found 0 folders'',
             Print (''\<newline>'' @ replicate 50 (CHR ''='')),
             Print ''No data to export'',
             Print ''\<newline>Processing complete! Total questionnaires processed: 0''],
          aggregator = new_aggregator\<rparr>, None)) \<and>
   (sp_files env (dict_get (properties sp_folder) ''ServerRelativeUrl'' '''') = Inl e4 \<longrightarrow>
      sp_get_excel_files_in_folder env (dict_get (properties sp_folder) ''ServerRelativeUrl'' '''') =
        ([Print (''Error getting files from ''
                 @ dict_get (properties sp_folder) ''ServerRelativeUrl'' '''' @ '': ''
                 @ str_exn e4)], []) \<and>
      sp_process_folder env temp_dir st sp_folder =
        emit st
          [Print (''\<newline>Processing folder: '' @ dict_get (properties sp_folder) ''Name'' ''''),
           Print (''Error getting files from ''
                  @ dict_get (properties sp_folder) ''ServerRelativeUrl'' '''' @ '': ''
                  @ str_exn e4),
           Print ''  Found 0 Excel file(s)''])"
proof (intro conjI impI)
  assume h: "iterdir env p = Inl e1"
  then show folders: "get_folders env p =
      ([Print (''Error getting folders from '' @ p @ '': '' @ str_exn e1)], [])"
    by (simp add: get_folders_def)
  from h show "local_get_excel_files_in_folder env p =
      ([Print (''Error getting files from '' @ p @ '': '' @ str_exn e1)], [])"
    by (simp add: local_get_excel_files_in_folder_def)
  show "main_local env p output_file =
        (\<lparr>trace =
            [Print (''Scanning folders in: '' @ p),
             Print (''Error getting folders from '' @ p @ '': '' @ str_exn e1),
             Print ''Found 0 folders'',
             Print (''\<newline>'' @ replicate 50 (CHR ''='')),
             Print ''No data to export'',
             Print ''\<newline>Processing complete! Total questionnaires processed: 0''],
          aggregator = new_aggregator\<rparr>, None)"
    by (simp add: main_local_def folders finish_empty new_aggregator_def emit_def
        str_nat_small_values)
next
  assume "iterdir env (str_path folder) = Inl e2"
  then show "local_process_folder env st folder =
        emit st
          [Print (''\<newline>Processing folder: '' @ name folder),
           Print (''Error getting files from '' @ str_path folder @ '': '' @ str_exn e2),
           Print ''  Found 0 Excel file(s)'']"
    by (simp add: local_process_folder_def local_get_excel_files_in_folder_def emit_def
        str_nat_small_values)
next
  assume h: "sp_folders env q = Inl e3"
  then show folders: "get_folders_in_path env q =
      ([Print (''Error getting folders from '' @ q @ '': '' @ str_exn e3)], [])"
    by (simp add: get_folders_in_path_def)
  show "main_sharepoint env temp_dir q output_file =
        (\<lparr>trace =
            [Print (''\<newline>Scanning folder: '' @ q),
             Print (''Error getting folders from '' @ q @ '': '' @ str_exn e3),
             Print ''Found 0 folders'',
             Print (''\<newline>'' @ replicate 50 (CHR ''='')),
             Print ''No data to export'',
             Print ''\<newline>Processing complete! Total questionnaires processed: 0''],
          aggregator = new_aggregator\<rparr>, None)"
    by (simp add: main_sharepoint_def folders finish_empty new_aggregator_def emit_def
        str_nat_small_values)
next
  assume h: "sp_files env (dict_get (properties sp_folder) ''ServerRelativeUrl'' '''') = Inl e4"
  then show files: "sp_get_excel_files_in_folder env
        (dict_get (properties sp_folder) ''ServerRelativeUrl'' '''') =
        ([Print (''Error getting files from ''
                 @ dict_get (properties sp_folder) ''ServerRelativeUrl'' '''' @ '': ''
                 @ str_exn e4)], [])"
    by (simp add: sp_get_excel_files_in_folder_def)
  show "sp_process_folder env temp_dir st sp_folder =
        emit st
          [Print (''\<newline>Processing folder: '' @ dict_get (properties sp_folder) ''Name'' ''''),
           Print (''Error getting files from ''
                  @ dict_get (properties sp_folder) ''ServerRelativeUrl'' '''' @ '': ''
                  @ str_exn e4),
           Print ''  Found 0 Excel file(s)'']"
    by (simp add: sp_process_folder_def files emit_def str_nat_small_values)
qed

theorem listing_failure_is_not_fatal_witness:
  "iterdir empty_world ''/data'' = Inl (Exception ''[Errno 2] No such file or directory'') \<and>
   get_folders empty_world ''/data'' =
     ([Print ''Error getting folders from /data: [Errno 2] No such file or directory''], []) \<and>
   main_local empty_world ''/data'' ''out.xlsx'' =
     (\<lparr>trace =
         [Print ''Scanning folders in: /data'',
          Print ''Error getting folders from /data: [Errno 2] No such file or directory'',
          Print ''Found 0 folders'',
          Print (''\<newline>'' @ replicate 50 (CHR ''='')),
          Print ''No data to export'',
          Print ''\<newline>Processing complete! Total questionnaires processed: 0''],
       aggregator = new_aggregator\<rparr>, None) \<and>
   iterdir empty_world ''/data/Unit-A'' =
     Inl (Exception ''[Errno 2] No such file or directory'') \<and>
   local_process_folder empty_world \<lparr>trace = [], aggregator = new_aggregator\<rparr>
       \<lparr>name = ''Unit-A'', str_path = ''/data/Unit-A'', is_dir = True, is_file = False\<rparr> =
     \<lparr>trace =
        [Print ''\<newline>Processing folder: Unit-A'',
         Print ''Error getting files from /data/Unit-A: [Errno 2] No such file or directory'',
         Print ''  Found 0 Excel file(s)''],
      aggregator = new_aggregator\<rparr> \<and>
   sp_folders empty_world ''/sites/q'' = Inl (Exception ''404 Client Error: Not Found'') \<and>
   get_folders_in_path empty_world ''/sites/q'' =
     ([Print ''Error getting folders from /sites/q: 404 Client Error: Not Found''], []) \<and>
   sp_files empty_world ''/sites/q/Unit-A'' = Inl (Exception ''404 Client Error: Not Found'') \<and>
   sp_get_excel_files_in_folder empty_world ''/sites/q/Unit-A'' =
     ([Print ''Error getting files from /sites/q/Unit-A: 404 Client Error: Not Found''], [])"
proof -
  let ?folder = "\<lparr>name = ''Unit-A'', str_path = ''/data/Unit-A'', is_dir = True,
      is_file = False\<rparr>"
  let ?spf = "\<lparr>properties =
      [''Name'' \<mapsto> ''Unit-A'', ''ServerRelativeUrl'' \<mapsto> ''/sites/q/Unit-A'']\<rparr>"
  let ?st = "\<lparr>trace = [], aggregator = new_aggregator\<rparr> :: string run"
  have url: "dict_get (properties ?spf) ''ServerRelativeUrl'' '''' = ''/sites/q/Unit-A''"
    by (simp add: dict_get_def)
  have h1: "iterdir empty_world ''/data'' =
      Inl (Exception ''[Errno 2] No such file or directory'')"
    by (simp add: empty_world_def)
  have h2: "iterdir empty_world (str_path ?folder) =
      Inl (Exception ''[Errno 2] No such file or directory'')"
    by (simp add: empty_world_def)
  have h3: "sp_folders empty_world ''/sites/q'' = Inl (Exception ''404 Client Error: Not Found'')"
    by (simp add: empty_world_def)
  have h4: "sp_files empty_world (dict_get (properties ?spf) ''ServerRelativeUrl'' '''') =
      Inl (Exception ''404 Client Error: Not Found'')"
    by (simp add: empty_world_def)
  note t = listing_failure_is_not_fatal [of empty_world "''/data''"
      "Exception ''[Errno 2] No such file or directory''" "''out.xlsx''"
      ?folder "Exception ''[Errno 2] No such file or directory''" ?st
      "''/sites/q''" "Exception ''404 Client Error: Not Found''" "''/tmp/run''"
      ?spf "Exception ''404 Client Error: Not Found''"]
  from t h1 h2 h3 h4 url show ?thesis
    by (simp add: emit_def)
qed

end
